theory Spec2Isabelle
  imports Main "HOL-Library.Multiset"
begin

section \<open>Pagination utilities (utils/pagination.ts)\<close>

text \<open>
  The TypeScript interface \<^verbatim>\<open>PaginatedResponse<T>\<close> has the fields \<^verbatim>\<open>items\<close>,
  \<^verbatim>\<open>count\<close>, \<^verbatim>\<open>total?\<close>, \<^verbatim>\<open>hasMore\<close> and \<^verbatim>\<open>nextCursor?\<close>. An optional field is an
  \<open>option\<close>; \<open>None\<close> stands for \<^verbatim>\<open>undefined\<close>. The type \<open>'n\<close> is the type of the
  numbers that are only carried around (the reported total).
\<close>

record ('a, 'n) PaginatedResponse =
  items :: "'a list"
  count :: nat
  total :: "'n option"
  hasMore :: bool
  nextCursor :: "string option"

text \<open>The \<^verbatim>\<open>options\<close> argument of \<^verbatim>\<open>createPaginatedResponse\<close>; every field is optional.\<close>

record 'n PaginatedOptions =
  opt_total :: "'n option"
  opt_hasMore :: "bool option"
  opt_nextCursor :: "string option"

definition no_options :: "'n PaginatedOptions" where
  "no_options = \<lparr>opt_total = None, opt_hasMore = None, opt_nextCursor = None\<rparr>"

definition emptyPaginatedResponse :: "('a, 'n) PaginatedResponse" where
  "emptyPaginatedResponse =
     \<lparr>items = [], count = 0, total = None, hasMore = False, nextCursor = None\<rparr>"

text \<open>\<^verbatim>\<open>options.hasMore ?? false\<close>: the default applies when the field is undefined only.\<close>

definition createPaginatedResponse ::
  "'a list \<Rightarrow> 'n PaginatedOptions \<Rightarrow> ('a, 'n) PaginatedResponse" where
  "createPaginatedResponse its options =
     \<lparr>items = its,
      count = length its,
      total = opt_total options,
      hasMore = (case opt_hasMore options of None \<Rightarrow> False | Some b \<Rightarrow> b),
      nextCursor = opt_nextCursor options\<rparr>"

text \<open>
  \<^verbatim>\<open>hasMoreItems\<close> and \<^verbatim>\<open>getNextOffset\<close> use only \<^verbatim>\<open>+\<close> and \<^verbatim>\<open><\<close> of their
  arguments, so they are defined for every type with these two operations.
\<close>

definition hasMoreItems :: "'n::{plus,ord} \<Rightarrow> 'n \<Rightarrow> 'n \<Rightarrow> bool" where
  "hasMoreItems offset limit tot = (offset + limit < tot)"

definition getNextOffset :: "'n::{plus,ord} \<Rightarrow> 'n \<Rightarrow> 'n \<Rightarrow> 'n option" where
  "getNextOffset currentOffset limit tot =
     (let next = currentOffset + limit in if next < tot then Some next else None)"

section \<open>JavaScript values and built-ins\<close>

text \<open>
  A value decoded from or encoded to JSON. The number type \<open>'n\<close> is left open: the
  client never computes with the numbers inside such values, it only hands them on.
  An object is the list of its own properties in insertion order.
\<close>

datatype 'n json =
    JNull
  | JBool bool
  | JNum 'n
  | JStr string
  | JArr "'n json list"
  | JObj "(string \<times> 'n json) list"

text \<open>
  The built-ins of the JavaScript runtime that the client calls and that are not
  defined in the repository are parameters of the model. The numbers of JavaScript
  are IEEE doubles; the model leaves their type open and takes from the platform
  what the client does with a number: the number that an integer literal or the
  length of an array denotes, the sum \<^verbatim>\<open>a + b\<close>, the comparison \<^verbatim>\<open>a === b\<close>, the
  truthiness of a number (false for 0 and \<^verbatim>\<open>NaN\<close>), whether it is finite, and its
  text \<^verbatim>\<open>String(n)\<close>, which is also what a template literal and
  \<^verbatim>\<open>Array.prototype.join\<close> give. The other parameters are \<^verbatim>\<open>JSON.parse\<close> (\<open>None\<close> when
  it throws a SyntaxError), \<^verbatim>\<open>encodeURIComponent\<close>, and the percent-encoding
  \<^verbatim>\<open>URLSearchParams.toString\<close> applies to each name and value.
  (\<^verbatim>\<open>encodeURIComponent\<close> throws on a lone surrogate and \<^verbatim>\<open>JSON.stringify\<close> on a
  cyclic value; neither is a value of the types used here.)
\<close>

record 'n platform =
  JSON_parse :: "string \<Rightarrow> 'n json option"
  num_of_nat :: "nat \<Rightarrow> 'n"
  num_add :: "'n \<Rightarrow> 'n \<Rightarrow> 'n"
  num_eq :: "'n \<Rightarrow> 'n \<Rightarrow> bool"
  num_truthy :: "'n \<Rightarrow> bool"
  num_finite :: "'n \<Rightarrow> bool"
  num_str :: "'n \<Rightarrow> string"
  encodeURIComponent :: "string \<Rightarrow> string"
  form_urlencode :: "string \<Rightarrow> string"

text \<open>
  \<^verbatim>\<open>JSON.stringify\<close> of a number: its text when the number is finite, and \<^verbatim>\<open>null\<close>
  when it is \<^verbatim>\<open>NaN\<close> or infinite.
\<close>

definition num_json :: "'n platform \<Rightarrow> 'n \<Rightarrow> string" where
  "num_json P n = (if num_finite P n then num_str P n else ''null'')"

text \<open>\<^verbatim>\<open>n || d\<close> on an optional number: the default replaces undefined, 0 and \<^verbatim>\<open>NaN\<close>.\<close>

definition num_or :: "'n platform \<Rightarrow> 'n option \<Rightarrow> 'n \<Rightarrow> 'n" where
  "num_or P n d = (case n of None \<Rightarrow> d | Some v \<Rightarrow> if num_truthy P v then v else d)"

text \<open>Decimal text of an integer, as \<^verbatim>\<open>String(n)\<close> gives it for an integral number.\<close>

fun show_nat :: "nat \<Rightarrow> string" where
  "show_nat n =
     (if n < 10 then [''0123456789'' ! n]
      else show_nat (n div 10) @ [''0123456789'' ! (n mod 10)])"

declare show_nat.simps [simp del]

definition show_int :: "int \<Rightarrow> string" where
  "show_int i = (if i < 0 then CHR ''-'' # show_nat (nat (- i)) else show_nat (nat i))"

text \<open>\<^verbatim>\<open>Array.prototype.join\<close> on strings.\<close>

fun join :: "string \<Rightarrow> string list \<Rightarrow> string" where
  "join sep [] = []"
| "join sep [x] = x"
| "join sep (x # y # ys) = x @ sep @ join sep (y # ys)"

text \<open>\<^verbatim>\<open>String.prototype.includes\<close>: \<open>t\<close> occurs in \<open>s\<close> as a contiguous substring.\<close>

fun starts_with :: "string \<Rightarrow> string \<Rightarrow> bool" where
  "starts_with s [] = True"
| "starts_with [] (c # t) = False"
| "starts_with (d # s) (c # t) = (d = c \<and> starts_with s t)"

fun str_includes :: "string \<Rightarrow> string \<Rightarrow> bool" where
  "str_includes [] t = (t = [])"
| "str_includes (c # s) t = (starts_with (c # s) t \<or> str_includes s t)"

text \<open>
  \<^verbatim>\<open>JSON.stringify\<close> without indentation. A string is quoted; the quote, the
  backslash and the control characters below U+0020 are escaped, every other
  character is copied.
\<close>

definition hex_digit :: "nat \<Rightarrow> char" where
  "hex_digit n = ''0123456789abcdef'' ! n"

definition json_escape_char :: "char \<Rightarrow> string" where
  "json_escape_char c =
     (if c = CHR 0x22 then [CHR 0x5C, CHR 0x22]
      else if c = CHR 0x5C then [CHR 0x5C, CHR 0x5C]
      else if c = CHR 0x08 then [CHR 0x5C, CHR ''b'']
      else if c = CHR 0x0C then [CHR 0x5C, CHR ''f'']
      else if c = CHR 0x0A then [CHR 0x5C, CHR ''n'']
      else if c = CHR 0x0D then [CHR 0x5C, CHR ''r'']
      else if c = CHR 0x09 then [CHR 0x5C, CHR ''t'']
      else if of_char c < (32::nat) then
        [CHR 0x5C, CHR ''u'', CHR ''0'', CHR ''0'',
         hex_digit (of_char c div 16), hex_digit (of_char c mod 16)]
      else [c])"

definition json_quote :: "string \<Rightarrow> string" where
  "json_quote s = CHR 0x22 # concat (map json_escape_char s) @ [CHR 0x22]"


fun JSON_stringify :: "('n \<Rightarrow> string) \<Rightarrow> 'n json \<Rightarrow> string" where
  "JSON_stringify nj JNull = ''null''"
| "JSON_stringify nj (JBool b) = (if b then ''true'' else ''false'')"
| "JSON_stringify nj (JNum n) = nj n"
| "JSON_stringify nj (JStr s) = json_quote s"
| "JSON_stringify nj (JArr xs) = ''['' @ join '','' (map (JSON_stringify nj) xs) @ '']''"
| "JSON_stringify nj (JObj kvs) =
     ''{'' @ join '','' (map (\<lambda>(k, v). json_quote k @ '':'' @ JSON_stringify nj v) kvs) @ ''}''"

text \<open>Truthiness of a value (\<^verbatim>\<open>ToBoolean\<close>); \<open>None\<close> is \<^verbatim>\<open>undefined\<close>.\<close>

fun truthy :: "('n \<Rightarrow> bool) \<Rightarrow> 'n json option \<Rightarrow> bool" where
  "truthy nt None = False"
| "truthy nt (Some JNull) = False"
| "truthy nt (Some (JBool b)) = b"
| "truthy nt (Some (JNum n)) = nt n"
| "truthy nt (Some (JStr s)) = (s \<noteq> [])"
| "truthy nt (Some (JArr xs)) = True"
| "truthy nt (Some (JObj kvs)) = True"

text \<open>\<^verbatim>\<open>a || b\<close> on values.\<close>

definition js_or :: "('n \<Rightarrow> bool) \<Rightarrow> 'n json option \<Rightarrow> 'n json option \<Rightarrow> 'n json option" where
  "js_or nt a b = (if truthy nt a then a else b)"

text \<open>
  Reading a property \<^verbatim>\<open>v.k\<close>, for the names the client reads (none of them is a
  built-in property of strings, numbers, booleans or arrays): \<open>None\<close> when the read
  throws a TypeError (\<open>v\<close> is \<^verbatim>\<open>null\<close> or \<^verbatim>\<open>undefined\<close>), \<open>Some None\<close> when it gives
  \<^verbatim>\<open>undefined\<close>.
\<close>

fun get_prop :: "'n json option \<Rightarrow> string \<Rightarrow> 'n json option option" where
  "get_prop None k = None"
| "get_prop (Some JNull) k = None"
| "get_prop (Some (JObj kvs)) k = Some (map_of kvs k)"
| "get_prop (Some v) k = Some None"

text \<open>Optional chaining \<^verbatim>\<open>v?.k\<close>: \<^verbatim>\<open>undefined\<close> when \<open>v\<close> is \<^verbatim>\<open>null\<close> or \<^verbatim>\<open>undefined\<close>.\<close>

fun get_prop_opt :: "'n json option \<Rightarrow> string \<Rightarrow> 'n json option" where
  "get_prop_opt None k = None"
| "get_prop_opt (Some JNull) k = None"
| "get_prop_opt (Some (JObj kvs)) k = map_of kvs k"
| "get_prop_opt (Some v) k = None"

text \<open>
  The result of \<^verbatim>\<open>parseInt\<close>: an integer or \<^verbatim>\<open>NaN\<close>. (The integer is exact below
  \<open>2\<^sup>5\<^sup>3\<close>; beyond that JavaScript rounds to the nearest double.)
\<close>

datatype jsnum = Num int | NaN

definition is_space :: "char \<Rightarrow> bool" where
  "is_space c = (c \<in> {CHR 0x09, CHR 0x0A, CHR 0x0B, CHR 0x0C, CHR 0x0D, CHR 0x20})"

definition is_digit :: "char \<Rightarrow> bool" where
  "is_digit c = (c \<in> set ''0123456789'')"

definition digit_val :: "char \<Rightarrow> int" where
  "digit_val c = int (of_char c) - 48"

text \<open>
  \<^verbatim>\<open>parseInt(s, 10)\<close>: skip leading white space (here the ASCII white space), read
  an optional sign, then the longest run of decimal digits; \<^verbatim>\<open>NaN\<close> when that run is
  empty. What follows the digits is ignored.
\<close>

definition parseInt :: "string \<Rightarrow> jsnum" where
  "parseInt s =
     (let s1 = dropWhile is_space s;
          neg = (case s1 of c # r \<Rightarrow> c = CHR ''-'' | [] \<Rightarrow> False);
          s2 = (case s1 of c # r \<Rightarrow> if c = CHR ''-'' \<or> c = CHR ''+'' then r else s1 | [] \<Rightarrow> s1);
          ds = takeWhile is_digit s2;
          v = foldl (\<lambda>a c. 10 * a + digit_val c) 0 ds
      in if ds = [] then NaN else Num (if neg then - v else v))"

section \<open>Error taxonomy (utils/errors.ts)\<close>

text \<open>
  The error classes the client throws, with the constructor arguments they are
  built from, and the errors of the runtime that can surface through the client:
  a rejected \<^verbatim>\<open>fetch\<close>, a SyntaxError of \<^verbatim>\<open>JSON.parse\<close>, a TypeError of a property
  read on \<^verbatim>\<open>undefined\<close> or \<^verbatim>\<open>null\<close>. The message of \<open>WeaviateApiError\<close> is the value
  passed to the constructor, which the client may take from a decoded body.

  \<open>CastViolation\<close> is not an error of the source. The source casts a decoded body
  to the declared response type without a check (\<^verbatim>\<open>as T\<close>); where a body
  contradicts that type in a way that raises nothing (for instance \<^verbatim>\<open>objects\<close> is a
  number), the source computes on with a value outside its own types. The model
  covers the well-typed bodies and marks the others with this outcome.
\<close>

datatype 'n error =
    WeaviateApiError "'n json" int
  | RateLimitError string jsnum
  | AuthenticationError string
  | NotFoundError string string
  | FetchRejected string
  | SyntaxError
  | TypeError
  | CastViolation

fun is_WeaviateApiError :: "'n error \<Rightarrow> bool" where
  "is_WeaviateApiError (WeaviateApiError m s) = True"
| "is_WeaviateApiError (RateLimitError m r) = True"
| "is_WeaviateApiError (AuthenticationError m) = True"
| "is_WeaviateApiError (NotFoundError t i) = True"
| "is_WeaviateApiError e = False"

fun statusCode :: "'n error \<Rightarrow> int option" where
  "statusCode (WeaviateApiError m s) = Some s"
| "statusCode (RateLimitError m r) = Some 429"
| "statusCode (AuthenticationError m) = Some 401"
| "statusCode (NotFoundError t i) = Some 404"
| "statusCode e = None"

fun code :: "'n error \<Rightarrow> string option" where
  "code (WeaviateApiError m s) = Some ''WEAVIATE_ERROR''"
| "code (RateLimitError m r) = Some ''RATE_LIMIT_EXCEEDED''"
| "code (AuthenticationError m) = Some ''AUTHENTICATION_FAILED''"
| "code (NotFoundError t i) = Some ''NOT_FOUND''"
| "code e = None"

fun retryable :: "'n error \<Rightarrow> bool" where
  "retryable (RateLimitError m r) = True"
| "retryable e = False"

fun retryAfterSeconds :: "'n error \<Rightarrow> jsnum option" where
  "retryAfterSeconds (RateLimitError m r) = Some r"
| "retryAfterSeconds e = None"

section \<open>Credentials and request headers (types/env.ts, client.ts)\<close>

record TenantCredentials =
  weaviateUrl :: "string option"
  apiKey :: "string option"
  openaiApiKey :: "string option"
  cohereApiKey :: "string option"
  huggingfaceApiKey :: "string option"
  anthropicApiKey :: "string option"
  azureApiKey :: "string option"

record client =
  credentials :: TenantCredentials
  baseUrl :: string

text \<open>\<^verbatim>\<open>s || d\<close> on an optional string: the default replaces undefined and the empty string.\<close>

definition str_or :: "string option \<Rightarrow> string \<Rightarrow> string" where
  "str_or s d = (case s of None \<Rightarrow> d | Some v \<Rightarrow> if v = [] then d else v)"

text \<open>\<^verbatim>\<open>n || d\<close> on an optional integral number: the default replaces undefined and 0.\<close>

definition int_or :: "int option \<Rightarrow> int \<Rightarrow> int" where
  "int_or n d = (case n of None \<Rightarrow> d | Some v \<Rightarrow> if v = 0 then d else v)"

text \<open>\<^verbatim>\<open>.replace(/\/$/, '')\<close>: one slash at the very end is removed.\<close>

definition strip_trailing_slash :: "string \<Rightarrow> string" where
  "strip_trailing_slash s = (if s \<noteq> [] \<and> last s = CHR ''/'' then butlast s else s)"

definition createWeaviateClient :: "TenantCredentials \<Rightarrow> client" where
  "createWeaviateClient creds =
     \<lparr>credentials = creds, baseUrl = strip_trailing_slash (str_or (weaviateUrl creds) [])\<rparr>"

text \<open>One header, set only when the credential is a non-empty string.\<close>

definition header_if :: "string \<Rightarrow> string option \<Rightarrow> string \<Rightarrow> (string \<times> string) list" where
  "header_if name cred pre =
     (case cred of None \<Rightarrow> [] | Some k \<Rightarrow> if k = [] then [] else [(name, pre @ k)])"

definition getAuthHeaders :: "client \<Rightarrow> (string \<times> string) list" where
  "getAuthHeaders c =
     [(''Content-Type'', ''application/json'')]
     @ header_if ''Authorization'' (apiKey (credentials c)) ''Bearer ''
     @ header_if ''X-OpenAI-Api-Key'' (openaiApiKey (credentials c)) []
     @ header_if ''X-Cohere-Api-Key'' (cohereApiKey (credentials c)) []
     @ header_if ''X-HuggingFace-Api-Key'' (huggingfaceApiKey (credentials c)) []
     @ header_if ''X-Anthropic-Api-Key'' (anthropicApiKey (credentials c)) []
     @ header_if ''X-Azure-Api-Key'' (azureApiKey (credentials c)) []"

text \<open>
  Object spread \<^verbatim>\<open>{...a, ...b}\<close>: a property of \<open>b\<close> replaces the value of the same
  name in \<open>a\<close> where it stands, and is appended otherwise.
\<close>

fun obj_set :: "(string \<times> 'v) list \<Rightarrow> string \<Rightarrow> 'v \<Rightarrow> (string \<times> 'v) list" where
  "obj_set [] k v = [(k, v)]"
| "obj_set ((k', v') # kvs) k v = (if k' = k then (k, v) # kvs else (k', v') # obj_set kvs k v)"

fun spread :: "(string \<times> 'v) list \<Rightarrow> (string \<times> 'v) list \<Rightarrow> (string \<times> 'v) list" where
  "spread a [] = a"
| "spread a ((k, v) # b) = spread (obj_set a k v) b"

section \<open>The network and asynchronous operations\<close>

text \<open>
  The \<^verbatim>\<open>RequestInit\<close> a caller of \<^verbatim>\<open>request\<close> passes, the request handed to
  \<^verbatim>\<open>fetch\<close>, and what \<^verbatim>\<open>fetch\<close> settles with: a rejection (a transport failure) or
  a response, of which the client reads the status, headers by name, and the body
  text. Reading the body of a delivered response is taken to succeed.
\<close>

record request_init =
  init_method :: "string option"
  init_body :: "string option"
  init_headers :: "(string \<times> string) list option"

record http_request =
  req_url :: string
  req_method :: "string option"
  req_headers :: "(string \<times> string) list"
  req_body :: "string option"

record http_response =
  status :: int
  header_get :: "string \<Rightarrow> string option"
  body_text :: string

datatype fetch_outcome = Rejected string | Responded http_response

text \<open>
  An asynchronous computation either is finished with a value, or calls \<^verbatim>\<open>fetch\<close>
  and goes on with what the network answers. Network I/O is visible as a \<open>Fetch\<close>
  node: a computation that is \<open>Done\<close> has performed none.
\<close>

datatype 'a io = Done 'a | Fetch http_request "fetch_outcome \<Rightarrow> 'a io"

primrec run_io :: "(http_request \<Rightarrow> fetch_outcome) \<Rightarrow> 'a io \<Rightarrow> 'a" where
  "run_io net (Done a) = a"
| "run_io net (Fetch r k) = run_io net (k (net r))"

primrec io_requests :: "(http_request \<Rightarrow> fetch_outcome) \<Rightarrow> 'a io \<Rightarrow> http_request list" where
  "io_requests net (Done a) = []"
| "io_requests net (Fetch r k) = r # io_requests net (k (net r))"

primrec bind_io :: "'a io \<Rightarrow> ('a \<Rightarrow> 'b io) \<Rightarrow> 'b io" where
  "bind_io (Done a) f = f a"
| "bind_io (Fetch r k) f = Fetch r (\<lambda>out. bind_io (k out) f)"

text \<open>
  A thrown error is the left summand. \<^verbatim>\<open>await m\<close> followed by more code runs that
  code on the value and lets an error pass; \<^verbatim>\<open>try { m } catch { h }\<close> runs the
  handler on the error.
\<close>

definition await :: "('e + 'a) io \<Rightarrow> ('a \<Rightarrow> ('e + 'b) io) \<Rightarrow> ('e + 'b) io" where
  "await m f = bind_io m (\<lambda>r. case r of Inl e \<Rightarrow> Done (Inl e) | Inr v \<Rightarrow> f v)"

definition try_catch :: "('e + 'a) io \<Rightarrow> ('e \<Rightarrow> ('e + 'a) io) \<Rightarrow> ('e + 'a) io" where
  "try_catch m h = bind_io m (\<lambda>r. case r of Inl e \<Rightarrow> h e | Inr v \<Rightarrow> Done (Inr v))"

section \<open>The HTTP request pipeline (client.ts, \<^verbatim>\<open>request\<close>)\<close>

text \<open>The first truthy operand of a chain \<^verbatim>\<open>a || b || ... || d\<close> whose last operand is \<open>d\<close>.\<close>

fun first_truthy :: "('n \<Rightarrow> bool) \<Rightarrow> 'n json option list \<Rightarrow> 'n json \<Rightarrow> 'n json" where
  "first_truthy nt [] d = d"
| "first_truthy nt (None # xs) d = first_truthy nt xs d"
| "first_truthy nt (Some v # xs) d = (if truthy nt (Some v) then v else first_truthy nt xs d)"

text \<open>
  The message of the generic error. Inside the \<^verbatim>\<open>try\<close>, \<^verbatim>\<open>JSON.parse\<close> may throw, and
  so may \<^verbatim>\<open>errorJson.error\<close> when the body decodes to \<^verbatim>\<open>null\<close>; the \<^verbatim>\<open>catch\<close> then
  takes the raw body when it is not empty.
\<close>

definition error_message :: "'n platform \<Rightarrow> int \<Rightarrow> string \<Rightarrow> 'n json" where
  "error_message P st errorBody =
     (let message = JStr (''Weaviate API error: '' @ show_int st);
          caught = (if errorBody \<noteq> [] then JStr errorBody else message)
      in case JSON_parse P errorBody of
           None \<Rightarrow> caught
         | Some errorJson \<Rightarrow>
             (case get_prop (Some errorJson) ''error'' of
                None \<Rightarrow> caught
              | Some err \<Rightarrow>
                  first_truthy (num_truthy P)
                    [get_prop_opt err ''message'',
                     get_prop_opt (Some errorJson) ''message'',
                     err]
                    message))"

text \<open>
  What \<^verbatim>\<open>request\<close> does with the response once \<^verbatim>\<open>fetch\<close> has delivered it: the
  checks of the source, in the order of the source.
\<close>

definition response_ok :: "http_response \<Rightarrow> bool" where
  "response_ok r = (200 \<le> status r \<and> status r \<le> 299)"

definition handle_response ::
  "'n platform \<Rightarrow> string \<Rightarrow> http_response \<Rightarrow> 'n error + 'n json option" where
  "handle_response P endpoint response =
     (if status response = 429 then
        Inl (RateLimitError ''Rate limit exceeded''
          (case header_get response ''Retry-After'' of
             None \<Rightarrow> Num 60
           | Some retryAfter \<Rightarrow> if retryAfter = [] then Num 60 else parseInt retryAfter))
      else if status response = 401 \<or> status response = 403 then
        Inl (AuthenticationError ''Authentication failed. Check your Weaviate API key.'')
      else if status response = 404 then
        Inl (NotFoundError ''Resource'' endpoint)
      else if \<not> response_ok response then
        Inl (WeaviateApiError
              (error_message P (status response) (body_text response)) (status response))
      else if status response = 204 then Inr None
      else if body_text response = [] then Inr None
      else (case JSON_parse P (body_text response) of
              None \<Rightarrow> Inl SyntaxError
            | Some v \<Rightarrow> Inr (Some v)))"

definition no_init :: request_init where
  "no_init = \<lparr>init_method = None, init_body = None, init_headers = None\<rparr>"

definition request ::
  "'n platform \<Rightarrow> client \<Rightarrow> string \<Rightarrow> request_init \<Rightarrow> ('n error + 'n json option) io" where
  "request P c endpoint options =
     (if baseUrl c = [] then
        Done (Inl (AuthenticationError
          ''No Weaviate URL provided. Include X-Weaviate-URL header.''))
      else
        Fetch
          \<lparr>req_url = baseUrl c @ ''/v1'' @ endpoint,
           req_method = init_method options,
           req_headers =
             spread (getAuthHeaders c)
               (case init_headers options of None \<Rightarrow> [] | Some h \<Rightarrow> h),
           req_body = init_body options\<rparr>
          (\<lambda>out. Done (case out of
                         Rejected msg \<Rightarrow> Inl (FetchRejected msg)
                       | Responded response \<Rightarrow> handle_response P endpoint response)))"

section \<open>Filter nodes (types/entities.ts, \<^verbatim>\<open>WhereFilter\<close>)\<close>

datatype operator =
    And | Or | Equal | NotEqual | GreaterThan | GreaterThanEqual | LessThan
  | LessThanEqual | Like | WithinGeoRange | IsNull | ContainsAny | ContainsAll

fun operator_name :: "operator \<Rightarrow> string" where
  "operator_name And = ''And''"
| "operator_name Or = ''Or''"
| "operator_name Equal = ''Equal''"
| "operator_name NotEqual = ''NotEqual''"
| "operator_name GreaterThan = ''GreaterThan''"
| "operator_name GreaterThanEqual = ''GreaterThanEqual''"
| "operator_name LessThan = ''LessThan''"
| "operator_name LessThanEqual = ''LessThanEqual''"
| "operator_name Like = ''Like''"
| "operator_name WithinGeoRange = ''WithinGeoRange''"
| "operator_name IsNull = ''IsNull''"
| "operator_name ContainsAny = ''ContainsAny''"
| "operator_name ContainsAll = ''ContainsAll''"


text \<open>
  A node is an object of the interface. There is one constructor argument per
  property, in the order of the declaration; \<open>None\<close> is an absent (or \<^verbatim>\<open>undefined\<close>)
  property. The geo range is an object the caller builds
  (\<^verbatim>\<open>{ geoCoordinates: { latitude, longitude }, distance: { max } }\<close>) and is kept as
  the JavaScript value it is. The last argument, \<open>own_keys\<close>, lists the names of the
  properties in the order in which the caller added them to the object, which is the
  order in which \<^verbatim>\<open>JSON.stringify\<close> writes them.
\<close>

datatype 'n WhereFilter = WhereFilter
  (operator: operator)
  (operands: "'n WhereFilter list option")
  (path: "string list option")
  (valueInt: "'n option")
  (valueNumber: "'n option")
  (valueBoolean: "bool option")
  (valueString: "string option")
  (valueText: "string option")
  (valueDate: "string option")
  (valueGeoRange: "'n json option")
  (valueIntArray: "'n list option")
  (valueNumberArray: "'n list option")
  (valueBooleanArray: "bool list option")
  (valueStringArray: "string list option")
  (valueTextArray: "string list option")
  (valueDateArray: "string list option")
  (own_keys: "string list")

text \<open>The values of typed properties as JavaScript values.\<close>

definition json_strings :: "string list \<Rightarrow> 'n json" where
  "json_strings xs = JArr (map JStr xs)"

definition json_numbers :: "'n list \<Rightarrow> 'n json" where
  "json_numbers xs = JArr (map JNum xs)"

text \<open>\<^verbatim>\<open>JSON.stringify\<close> leaves out the properties of an object whose value is \<^verbatim>\<open>undefined\<close>.\<close>

fun defined_props :: "(string \<times> 'v option) list \<Rightarrow> (string \<times> 'v) list" where
  "defined_props [] = []"
| "defined_props ((k, None) # kvs) = defined_props kvs"
| "defined_props ((k, Some v) # kvs) = (k, v) # defined_props kvs"

text \<open>
  The properties in the order of a list of names: for each name in turn the property
  of that name, then the properties no name has asked for. Every order in which a
  caller can have added the properties is the order of some list of names, and a list
  that leaves a property out, names one twice or names an absent one still stands for
  an object with all its properties.
\<close>

fun in_order :: "string list \<Rightarrow> (string \<times> 'v) list \<Rightarrow> (string \<times> 'v) list" where
  "in_order [] props = props"
| "in_order (k # ks) props =
     filter (\<lambda>kv. fst kv = k) props @ in_order ks (filter (\<lambda>kv. fst kv \<noteq> k) props)"

text \<open>
  The node as the JavaScript value \<^verbatim>\<open>JSON.stringify(options.where)\<close> writes: its
  defined properties in the caller's order; the operands are nodes themselves.
\<close>

fun where_json :: "'n WhereFilter \<Rightarrow> 'n json" where
  "where_json (WhereFilter op ops pth vi vn vb vs vt vd vg via vna vba vsa vta vda ks) =
     JObj (in_order ks (defined_props
       [(''operator'', Some (JStr (operator_name op))),
        (''operands'', map_option (\<lambda>fs. JArr (map where_json fs)) ops),
        (''path'', map_option (\<lambda>p. JArr (map JStr p)) pth),
        (''valueInt'', map_option JNum vi),
        (''valueNumber'', map_option JNum vn),
        (''valueBoolean'', map_option JBool vb),
        (''valueString'', map_option JStr vs),
        (''valueText'', map_option JStr vt),
        (''valueDate'', map_option JStr vd),
        (''valueGeoRange'', vg),
        (''valueIntArray'', map_option (\<lambda>xs. JArr (map JNum xs)) via),
        (''valueNumberArray'', map_option (\<lambda>xs. JArr (map JNum xs)) vna),
        (''valueBooleanArray'', map_option (\<lambda>xs. JArr (map JBool xs)) vba),
        (''valueStringArray'', map_option (\<lambda>xs. JArr (map JStr xs)) vsa),
        (''valueTextArray'', map_option (\<lambda>xs. JArr (map JStr xs)) vta),
        (''valueDateArray'', map_option (\<lambda>xs. JArr (map JStr xs)) vda)]))"

text \<open>The properties written for a node, in the order they are written.\<close>

definition where_props :: "'n WhereFilter \<Rightarrow> (string \<times> 'n json) list" where
  "where_props f = (case where_json f of JObj kvs \<Rightarrow> kvs | _ \<Rightarrow> [])"

text \<open>
  The invariant of the data model, read off the node itself: a combinator has a
  non-empty operand list and no populated value property; a leaf has exactly one
  populated value property.
\<close>

definition value_field_names :: "string list" where
  "value_field_names =
     [''valueInt'', ''valueNumber'', ''valueBoolean'', ''valueString'', ''valueText'',
      ''valueDate'', ''valueGeoRange'', ''valueIntArray'', ''valueNumberArray'',
      ''valueBooleanArray'', ''valueStringArray'', ''valueTextArray'', ''valueDateArray'']"




section \<open>GraphQL query synthesis (client.ts)\<close>

record 'n SearchOptions =
  so_limit :: "int option"
  so_fields :: "string list option"
  so_where :: "'n WhereFilter option"
  so_tenant :: "string option"

definition no_search_options :: "'n SearchOptions" where
  "no_search_options = \<lparr>so_limit = None, so_fields = None, so_where = None, so_tenant = None\<rparr>"

definition nl :: string where
  "nl = [CHR 0x0A]"

definition sp :: "nat \<Rightarrow> string" where
  "sp n = replicate n CHR '' ''"

text \<open>
  The template literal of the source, line by line, with its indentation. The
  limit is \<^verbatim>\<open>options?.limit || 10\<close>; an absent \<^verbatim>\<open>options\<close> is \<open>no_search_options\<close>.
\<close>

definition buildGraphQLGetQuery ::
  "'n platform \<Rightarrow> string \<Rightarrow> string \<Rightarrow> 'n SearchOptions \<Rightarrow> string" where
  "buildGraphQLGetQuery P className searchClause options =
     (let fields = (case so_fields options of
                      None \<Rightarrow> ''_additional { id distance certainty }''
                    | Some fs \<Rightarrow> if fs = [] then ''_additional { id distance certainty }''
                                else join '' '' fs);
          limit = int_or (so_limit options) 10;
          whereClause = (case so_where options of
                           None \<Rightarrow> []
                         | Some w \<Rightarrow> '', where: '' @ JSON_stringify (num_json P) (where_json w));
          tenantClause = (case so_tenant options of
                            None \<Rightarrow> []
                          | Some t \<Rightarrow> if t = [] then []
                                      else '', tenant: '' @ [CHR 0x22] @ t @ [CHR 0x22])
      in ''{'' @ nl
         @ sp 6 @ ''Get {'' @ nl
         @ sp 8 @ className @ ''('' @ nl
         @ sp 10 @ searchClause @ nl
         @ sp 10 @ ''limit: '' @ show_int limit @ nl
         @ sp 10 @ whereClause @ nl
         @ sp 10 @ tenantClause @ nl
         @ sp 8 @ '') {'' @ nl
         @ sp 10 @ fields @ nl
         @ sp 8 @ ''}'' @ nl
         @ sp 6 @ ''}'' @ nl
         @ sp 4 @ ''}'')"

record 'n NearVectorParams =
  nv_vector :: "'n list"
  nv_certainty :: "'n option"
  nv_distance :: "'n option"

record 'n Move =
  mv_concepts :: "string list option"
  mv_objects :: "string list option"
  mv_force :: 'n

record 'n NearTextParams =
  nt_concepts :: "string list"
  nt_certainty :: "'n option"
  nt_distance :: "'n option"
  nt_moveTo :: "'n Move option"
  nt_moveAwayFrom :: "'n Move option"

record 'n NearObjectParams =
  no_id :: string
  no_certainty :: "'n option"
  no_distance :: "'n option"

record 'n HybridParams =
  hy_query :: string
  hy_alpha :: "'n option"
  hy_vector :: "'n list option"
  hy_properties :: "string list option"
  hy_fusionType :: "string option"

record Bm25Params =
  bm_query :: string
  bm_properties :: "string list option"

text \<open>\<^verbatim>\<open>if (x !== undefined) clause += `, key: ${x}`\<close> for a number.\<close>

definition num_arg :: "'n platform \<Rightarrow> string \<Rightarrow> 'n option \<Rightarrow> string" where
  "num_arg P key x = (case x of None \<Rightarrow> [] | Some v \<Rightarrow> '', '' @ key @ '': '' @ num_str P v)"

text \<open>\<^verbatim>\<open>if (xs) clause += `, key: ${JSON.stringify(xs)}`\<close> for an array, which is truthy.\<close>

definition json_arg :: "'n platform \<Rightarrow> string \<Rightarrow> 'n json option \<Rightarrow> string" where
  "json_arg P key x =
     (case x of None \<Rightarrow> [] | Some v \<Rightarrow> '', '' @ key @ '': '' @ JSON_stringify (num_json P) v)"

text \<open>The \<^verbatim>\<open>objects\<close> of a move clause are \<^verbatim>\<open>{ id }\<close> objects, given here by their ids.\<close>

definition json_id_objects :: "string list \<Rightarrow> 'n json" where
  "json_id_objects ids = JArr (map (\<lambda>i. JObj [(''id'', JStr i)]) ids)"

definition move_clause :: "'n platform \<Rightarrow> string \<Rightarrow> 'n Move option \<Rightarrow> string" where
  "move_clause P key m =
     (case m of
        None \<Rightarrow> []
      | Some mv \<Rightarrow>
          '', '' @ key @ '': { force: '' @ num_str P (mv_force mv)
          @ json_arg P ''concepts'' (map_option json_strings (mv_concepts mv))
          @ json_arg P ''objects'' (map_option json_id_objects (mv_objects mv))
          @ '' }'')"

definition nearVectorClause :: "'n platform \<Rightarrow> 'n NearVectorParams \<Rightarrow> string" where
  "nearVectorClause P params =
     ''nearVector: { vector: ['' @ join '', '' (map (num_str P) (nv_vector params)) @ '']''
     @ num_arg P ''certainty'' (nv_certainty params)
     @ num_arg P ''distance'' (nv_distance params)
     @ '' }''"

definition nearTextClause :: "'n platform \<Rightarrow> 'n NearTextParams \<Rightarrow> string" where
  "nearTextClause P params =
     ''nearText: { concepts: '' @ JSON_stringify (num_json P) (json_strings (nt_concepts params))
     @ num_arg P ''certainty'' (nt_certainty params)
     @ num_arg P ''distance'' (nt_distance params)
     @ move_clause P ''moveTo'' (nt_moveTo params)
     @ move_clause P ''moveAwayFrom'' (nt_moveAwayFrom params)
     @ '' }''"

definition nearObjectClause :: "'n platform \<Rightarrow> 'n NearObjectParams \<Rightarrow> string" where
  "nearObjectClause P params =
     ''nearObject: { id: '' @ [CHR 0x22] @ no_id params @ [CHR 0x22]
     @ num_arg P ''certainty'' (no_certainty params)
     @ num_arg P ''distance'' (no_distance params)
     @ '' }''"

definition hybridClause :: "'n platform \<Rightarrow> 'n HybridParams \<Rightarrow> string" where
  "hybridClause P params =
     ''hybrid: { query: '' @ [CHR 0x22] @ hy_query params @ [CHR 0x22]
     @ num_arg P ''alpha'' (hy_alpha params)
     @ (case hy_vector params of
          None \<Rightarrow> []
        | Some v \<Rightarrow> '', vector: ['' @ join '', '' (map (num_str P) v) @ '']'')
     @ json_arg P ''properties'' (map_option json_strings (hy_properties params))
     @ (case hy_fusionType params of
          None \<Rightarrow> []
        | Some t \<Rightarrow> if t = [] then [] else '', fusionType: '' @ t)
     @ '' }''"

definition bm25Clause :: "'n platform \<Rightarrow> Bm25Params \<Rightarrow> string" where
  "bm25Clause P params =
     ''bm25: { query: '' @ [CHR 0x22] @ bm_query params @ [CHR 0x22]
     @ json_arg P ''properties'' (map_option json_strings (bm_properties params))
     @ '' }''"

section \<open>Client operations (client.ts)\<close>

text \<open>Helpers for the arguments of \<^verbatim>\<open>request\<close> and for \<^verbatim>\<open>URLSearchParams\<close>.\<close>

definition send :: "string \<Rightarrow> string option \<Rightarrow> request_init" where
  "send m b = \<lparr>init_method = Some m, init_body = b, init_headers = None\<rparr>"

definition stringify :: "'n platform \<Rightarrow> 'n json \<Rightarrow> string option" where
  "stringify P v = Some (JSON_stringify (num_json P) v)"

text \<open>\<^verbatim>\<open>if (v) queryParams.set(k, v)\<close> for an optional string.\<close>

definition opt_param :: "string \<Rightarrow> string option \<Rightarrow> (string \<times> string) list" where
  "opt_param k v = (case v of None \<Rightarrow> [] | Some x \<Rightarrow> if x = [] then [] else [(k, x)])"

text \<open>\<^verbatim>\<open>if (n) queryParams.set(k, String(n))\<close> for an optional number.\<close>

definition opt_num_param ::
  "'n platform \<Rightarrow> string \<Rightarrow> 'n option \<Rightarrow> (string \<times> string) list" where
  "opt_num_param P k n =
     (case n of None \<Rightarrow> [] | Some x \<Rightarrow> if num_truthy P x then [(k, num_str P x)] else [])"

definition query_string :: "'n platform \<Rightarrow> (string \<times> string) list \<Rightarrow> string" where
  "query_string P kvs =
     join ''&'' (map (\<lambda>(k, v). form_urlencode P k @ ''='' @ form_urlencode P v) kvs)"

text \<open>\<^verbatim>\<open>${query ? `?${query}` : ''}\<close>\<close>

definition query_suffix :: "string \<Rightarrow> string" where
  "query_suffix q = (if q = [] then [] else ''?'' @ q)"

definition tenant_suffix :: "'n platform \<Rightarrow> string option \<Rightarrow> string" where
  "tenant_suffix P tenant = query_suffix (query_string P (opt_param ''tenant'' tenant))"

definition object_path :: "'n platform \<Rightarrow> string \<Rightarrow> string \<Rightarrow> string" where
  "object_path P className ident =
     ''/objects/'' @ encodeURIComponent P className @ ''/'' @ encodeURIComponent P ident"

definition reference_path :: "'n platform \<Rightarrow> string \<Rightarrow> string \<Rightarrow> string \<Rightarrow> string" where
  "reference_path P className ident propertyName =
     object_path P className ident @ ''/references/'' @ encodeURIComponent P propertyName"

text \<open>\<^verbatim>\<open>await this.request<void>(...)\<close> as the whole body: the value is dropped.\<close>

definition void :: "('e + 'a) io \<Rightarrow> ('e + unit) io" where
  "void m = await m (\<lambda>v. Done (Inr ()))"

subsection \<open>Connection, meta, health\<close>

datatype 'n connection_message = ConnectedTo "'n json option" "'n json option" | MessageOf "'n error"

record 'n connection =
  connected :: bool
  message :: "'n connection_message"

definition getMeta :: "'n platform \<Rightarrow> client \<Rightarrow> ('n error + 'n json option) io" where
  "getMeta P c = request P c ''/meta'' no_init"

text \<open>
  The success message interpolates \<^verbatim>\<open>meta.version\<close> and \<^verbatim>\<open>meta.hostname\<close>
  (\<open>ConnectedTo\<close> keeps the two values); the failure message is \<^verbatim>\<open>error.message\<close>
  (\<open>MessageOf\<close> keeps the error). Reading a property of an undefined \<^verbatim>\<open>meta\<close> throws
  inside the \<^verbatim>\<open>try\<close>.
\<close>

definition testConnection :: "'n platform \<Rightarrow> client \<Rightarrow> ('n error + 'n connection) io" where
  "testConnection P c =
     try_catch
       (await (getMeta P c) (\<lambda>meta.
          case get_prop meta ''version'' of
            None \<Rightarrow> Done (Inl TypeError)
          | Some version \<Rightarrow>
              (case get_prop meta ''hostname'' of
                 None \<Rightarrow> Done (Inl TypeError)
               | Some hostname \<Rightarrow>
                   Done (Inr \<lparr>connected = True, message = ConnectedTo version hostname\<rparr>))))
       (\<lambda>error. Done (Inr \<lparr>connected = False, message = MessageOf error\<rparr>))"

text \<open>The probes return an object with the one property \<^verbatim>\<open>status\<close>, given here by its value.\<close>

definition isLive :: "'n platform \<Rightarrow> client \<Rightarrow> ('n error + string) io" where
  "isLive P c =
     try_catch
       (await (request P c ''/.well-known/live'' no_init) (\<lambda>v. Done (Inr ''ok'')))
       (\<lambda>error. Done (Inr ''error''))"

definition isReady :: "'n platform \<Rightarrow> client \<Rightarrow> ('n error + string) io" where
  "isReady P c =
     try_catch
       (await (request P c ''/.well-known/ready'' no_init) (\<lambda>v. Done (Inr ''ok'')))
       (\<lambda>error. Done (Inr ''error''))"

subsection \<open>Schema\<close>

definition getSchema :: "'n platform \<Rightarrow> client \<Rightarrow> ('n error + 'n json option) io" where
  "getSchema P c = request P c ''/schema'' no_init"

definition getClass :: "'n platform \<Rightarrow> client \<Rightarrow> string \<Rightarrow> ('n error + 'n json option) io" where
  "getClass P c className =
     request P c (''/schema/'' @ encodeURIComponent P className) no_init"

definition createClass :: "'n platform \<Rightarrow> client \<Rightarrow> 'n json \<Rightarrow> ('n error + 'n json option) io" where
  "createClass P c classConfig =
     request P c ''/schema'' (send ''POST'' (stringify P classConfig))"

definition updateClass ::
  "'n platform \<Rightarrow> client \<Rightarrow> string \<Rightarrow> 'n json \<Rightarrow> ('n error + 'n json option) io" where
  "updateClass P c className updates =
     request P c (''/schema/'' @ encodeURIComponent P className)
       (send ''PUT'' (stringify P updates))"

definition deleteClass :: "'n platform \<Rightarrow> client \<Rightarrow> string \<Rightarrow> ('n error + unit) io" where
  "deleteClass P c className =
     void (request P c (''/schema/'' @ encodeURIComponent P className) (send ''DELETE'' None))"

definition addProperty :: "'n platform \<Rightarrow> client \<Rightarrow> string \<Rightarrow> 'n json \<Rightarrow> ('n error + unit) io" where
  "addProperty P c className property =
     void (request P c (''/schema/'' @ encodeURIComponent P className @ ''/properties'')
             (send ''POST'' (stringify P property)))"

subsection \<open>Objects\<close>

text \<open>
  \<^verbatim>\<open>listObjects\<close>. The arguments are the properties of \<^verbatim>\<open>params\<close>; limit and offset
  are numbers of the platform, and so are the length of the array, the defaults 20
  and 0, the sum and the comparison. \<^verbatim>\<open>response.objects.length\<close> throws a TypeError
  when the response or its \<^verbatim>\<open>objects\<close> is undefined or \<^verbatim>\<open>null\<close>;
  \<^verbatim>\<open>response.totalResults\<close> is handed on as it is.
\<close>

definition listObjects_endpoint ::
  "'n platform \<Rightarrow> string \<Rightarrow> 'n option \<Rightarrow> 'n option \<Rightarrow> string list option \<Rightarrow>
   string option \<Rightarrow> string" where
  "listObjects_endpoint P className lim off incl tenant =
     (let queryParams =
            [(''class'', className)]
            @ opt_num_param P ''limit'' lim
            @ opt_num_param P ''offset'' off
            @ (case incl of None \<Rightarrow> [] | Some xs \<Rightarrow> [(''include'', join '','' xs)])
            @ opt_param ''tenant'' tenant
      in ''/objects?'' @ query_string P queryParams)"

definition listObjects ::
  "'n platform \<Rightarrow> client \<Rightarrow> string \<Rightarrow> 'n option \<Rightarrow> 'n option \<Rightarrow> string list option \<Rightarrow>
   string option \<Rightarrow> ('n error + ('n json, 'n json) PaginatedResponse) io" where
  "listObjects P c className lim off incl tenant =
     await (request P c (listObjects_endpoint P className lim off incl tenant) no_init)
       (\<lambda>response.
          let limit = num_or P lim (num_of_nat P 20);
              offset = num_or P off (num_of_nat P 0)
          in case get_prop response ''objects'' of
               None \<Rightarrow> Done (Inl TypeError)
             | Some None \<Rightarrow> Done (Inl TypeError)
             | Some (Some JNull) \<Rightarrow> Done (Inl TypeError)
             | Some (Some (JArr objects)) \<Rightarrow>
                 (let hasMore = num_eq P (num_of_nat P (length objects)) limit;
                      nextOffset = (if hasMore then Some (num_add P offset limit) else None)
                  in Done (Inr (createPaginatedResponse objects
                       \<lparr>opt_total = get_prop_opt response ''totalResults'',
                        opt_hasMore = Some hasMore,
                        opt_nextCursor = map_option (num_str P) nextOffset\<rparr>)))
             | Some (Some other) \<Rightarrow> Done (Inl CastViolation))"

definition getObject ::
  "'n platform \<Rightarrow> client \<Rightarrow> string \<Rightarrow> string \<Rightarrow> string list option \<Rightarrow> string option \<Rightarrow>
   ('n error + 'n json option) io" where
  "getObject P c className ident incl tenant =
     (let queryParams =
            (case incl of None \<Rightarrow> [] | Some xs \<Rightarrow> [(''include'', join '','' xs)])
            @ opt_param ''tenant'' tenant
      in request P c
           (object_path P className ident @ query_suffix (query_string P queryParams)) no_init)"

definition createObject :: "'n platform \<Rightarrow> client \<Rightarrow> 'n json \<Rightarrow> ('n error + 'n json option) io" where
  "createObject P c object = request P c ''/objects'' (send ''POST'' (stringify P object))"

definition updateObject ::
  "'n platform \<Rightarrow> client \<Rightarrow> string \<Rightarrow> string \<Rightarrow> 'n json \<Rightarrow> 'n list option \<Rightarrow> string option \<Rightarrow>
   ('n error + 'n json option) io" where
  "updateObject P c className ident properties vector tenant =
     (let body = JObj ([(''class'', JStr className), (''properties'', properties)]
                   @ (case vector of None \<Rightarrow> [] | Some v \<Rightarrow> [(''vector'', json_numbers v)]))
      in request P c (object_path P className ident @ tenant_suffix P tenant)
           (send ''PUT'' (stringify P body)))"

definition patchObject ::
  "'n platform \<Rightarrow> client \<Rightarrow> string \<Rightarrow> string \<Rightarrow> 'n json \<Rightarrow> string option \<Rightarrow>
   ('n error + unit) io" where
  "patchObject P c className ident properties tenant =
     void (request P c (object_path P className ident @ tenant_suffix P tenant)
             (send ''PATCH''
                (stringify P (JObj [(''class'', JStr className), (''properties'', properties)]))))"

definition deleteObject ::
  "'n platform \<Rightarrow> client \<Rightarrow> string \<Rightarrow> string \<Rightarrow> string option \<Rightarrow> ('n error + unit) io" where
  "deleteObject P c className ident tenant =
     void (request P c (object_path P className ident @ tenant_suffix P tenant)
             (send ''DELETE'' None))"

text \<open>
  \<^verbatim>\<open>objectExists\<close> calls \<^verbatim>\<open>fetch\<close> itself, inside a \<^verbatim>\<open>try\<close> whose \<^verbatim>\<open>catch\<close> returns
  false; it does not test the base URL.
\<close>

definition objectExists ::
  "'n platform \<Rightarrow> client \<Rightarrow> string \<Rightarrow> string \<Rightarrow> string option \<Rightarrow> ('n error + bool) io" where
  "objectExists P c className ident tenant =
     Fetch
       \<lparr>req_url = baseUrl c @ ''/v1'' @ object_path P className ident @ tenant_suffix P tenant,
        req_method = Some ''HEAD'',
        req_headers = getAuthHeaders c,
        req_body = None\<rparr>
       (\<lambda>out. Done (Inr (case out of
                           Rejected msg \<Rightarrow> False
                         | Responded response \<Rightarrow>
                             status response = 204 \<or> status response = 200)))"

subsection \<open>Batch operations and references\<close>

definition batchCreateObjects ::
  "'n platform \<Rightarrow> client \<Rightarrow> 'n json list \<Rightarrow> ('n error + 'n json option) io" where
  "batchCreateObjects P c objects =
     request P c ''/batch/objects''
       (send ''POST'' (stringify P (JObj [(''objects'', JArr objects)])))"

definition batchDeleteObjects ::
  "'n platform \<Rightarrow> client \<Rightarrow> 'n json \<Rightarrow> ('n error + 'n json option) io" where
  "batchDeleteObjects P c req =
     request P c ''/batch/objects'' (send ''DELETE'' (stringify P req))"

text \<open>The argument is the \<^verbatim>\<open>references\<close> property of the request object.\<close>

definition batchAddReferences ::
  "'n platform \<Rightarrow> client \<Rightarrow> 'n json \<Rightarrow> ('n error + 'n json option) io" where
  "batchAddReferences P c references =
     request P c ''/batch/references'' (send ''POST'' (stringify P references))"

definition addReference ::
  "'n platform \<Rightarrow> client \<Rightarrow> string \<Rightarrow> string \<Rightarrow> string \<Rightarrow> 'n json \<Rightarrow> string option \<Rightarrow>
   ('n error + unit) io" where
  "addReference P c className ident propertyName reference tenant =
     void (request P c (reference_path P className ident propertyName @ tenant_suffix P tenant)
             (send ''POST'' (stringify P reference)))"

definition updateReferences ::
  "'n platform \<Rightarrow> client \<Rightarrow> string \<Rightarrow> string \<Rightarrow> string \<Rightarrow> 'n json list \<Rightarrow> string option \<Rightarrow>
   ('n error + unit) io" where
  "updateReferences P c className ident propertyName references tenant =
     void (request P c (reference_path P className ident propertyName @ tenant_suffix P tenant)
             (send ''PUT'' (stringify P (JArr references))))"

definition deleteReference ::
  "'n platform \<Rightarrow> client \<Rightarrow> string \<Rightarrow> string \<Rightarrow> string \<Rightarrow> 'n json \<Rightarrow> string option \<Rightarrow>
   ('n error + unit) io" where
  "deleteReference P c className ident propertyName reference tenant =
     void (request P c (reference_path P className ident propertyName @ tenant_suffix P tenant)
             (send ''DELETE'' (stringify P reference)))"

subsection \<open>Search\<close>

definition graphqlQuery :: "'n platform \<Rightarrow> client \<Rightarrow> string \<Rightarrow> ('n error + 'n json option) io" where
  "graphqlQuery P c query =
     request P c ''/graphql'' (send ''POST'' (stringify P (JObj [(''query'', JStr query)])))"

definition nearVector ::
  "'n platform \<Rightarrow> client \<Rightarrow> string \<Rightarrow> 'n NearVectorParams \<Rightarrow> 'n SearchOptions \<Rightarrow>
   ('n error + 'n json option) io" where
  "nearVector P c className params options =
     graphqlQuery P c (buildGraphQLGetQuery P className (nearVectorClause P params) options)"

definition nearText ::
  "'n platform \<Rightarrow> client \<Rightarrow> string \<Rightarrow> 'n NearTextParams \<Rightarrow> 'n SearchOptions \<Rightarrow>
   ('n error + 'n json option) io" where
  "nearText P c className params options =
     graphqlQuery P c (buildGraphQLGetQuery P className (nearTextClause P params) options)"

definition nearObject ::
  "'n platform \<Rightarrow> client \<Rightarrow> string \<Rightarrow> 'n NearObjectParams \<Rightarrow> 'n SearchOptions \<Rightarrow>
   ('n error + 'n json option) io" where
  "nearObject P c className params options =
     graphqlQuery P c (buildGraphQLGetQuery P className (nearObjectClause P params) options)"

definition hybridSearch ::
  "'n platform \<Rightarrow> client \<Rightarrow> string \<Rightarrow> 'n HybridParams \<Rightarrow> 'n SearchOptions \<Rightarrow>
   ('n error + 'n json option) io" where
  "hybridSearch P c className params options =
     graphqlQuery P c (buildGraphQLGetQuery P className (hybridClause P params) options)"

definition bm25Search ::
  "'n platform \<Rightarrow> client \<Rightarrow> string \<Rightarrow> Bm25Params \<Rightarrow> 'n SearchOptions \<Rightarrow>
   ('n error + 'n json option) io" where
  "bm25Search P c className params options =
     graphqlQuery P c (buildGraphQLGetQuery P className (bm25Clause P params) options)"

subsection \<open>Tenants\<close>

definition tenants_path :: "'n platform \<Rightarrow> string \<Rightarrow> string" where
  "tenants_path P className = ''/schema/'' @ encodeURIComponent P className @ ''/tenants''"

definition getTenants :: "'n platform \<Rightarrow> client \<Rightarrow> string \<Rightarrow> ('n error + 'n json option) io" where
  "getTenants P c className = request P c (tenants_path P className) no_init"

definition createTenants ::
  "'n platform \<Rightarrow> client \<Rightarrow> string \<Rightarrow> 'n json list \<Rightarrow> ('n error + 'n json option) io" where
  "createTenants P c className tenants =
     request P c (tenants_path P className) (send ''POST'' (stringify P (JArr tenants)))"

definition updateTenants ::
  "'n platform \<Rightarrow> client \<Rightarrow> string \<Rightarrow> 'n json list \<Rightarrow> ('n error + unit) io" where
  "updateTenants P c className tenants =
     void (request P c (tenants_path P className) (send ''PUT'' (stringify P (JArr tenants))))"

definition deleteTenants ::
  "'n platform \<Rightarrow> client \<Rightarrow> string \<Rightarrow> string list \<Rightarrow> ('n error + unit) io" where
  "deleteTenants P c className tenantNames =
     void (request P c (tenants_path P className)
             (send ''DELETE'' (stringify P (json_strings tenantNames))))"

text \<open>
  \<^verbatim>\<open>tenants.some((t) => t.name === tenantName)\<close>: \<open>None\<close> when reading \<^verbatim>\<open>t.name\<close>
  throws before an element matches.
\<close>

fun tenants_some :: "'n json list \<Rightarrow> string \<Rightarrow> bool option" where
  "tenants_some [] tenantName = Some False"
| "tenants_some (t # ts) tenantName =
     (case get_prop (Some t) ''name'' of
        None \<Rightarrow> None
      | Some v \<Rightarrow> if v = Some (JStr tenantName) then Some True else tenants_some ts tenantName)"

text \<open>
  Calling \<^verbatim>\<open>.some\<close> on a value that is not an array throws a TypeError; all of it is
  inside the \<^verbatim>\<open>try\<close>.
\<close>

definition tenantExists ::
  "'n platform \<Rightarrow> client \<Rightarrow> string \<Rightarrow> string \<Rightarrow> ('n error + bool) io" where
  "tenantExists P c className tenantName =
     try_catch
       (await (getTenants P c className) (\<lambda>tenants.
          case tenants of
            Some (JArr ts) \<Rightarrow>
              (case tenants_some ts tenantName of
                 None \<Rightarrow> Done (Inl TypeError)
               | Some b \<Rightarrow> Done (Inr b))
          | _ \<Rightarrow> Done (Inl TypeError)))
       (\<lambda>error. Done (Inr False))"

subsection \<open>Backups, nodes, classification\<close>

definition createBackup ::
  "'n platform \<Rightarrow> client \<Rightarrow> string \<Rightarrow> 'n json \<Rightarrow> ('n error + 'n json option) io" where
  "createBackup P c backend req =
     request P c (''/backups/'' @ encodeURIComponent P backend) (send ''POST'' (stringify P req))"

definition backup_path :: "'n platform \<Rightarrow> string \<Rightarrow> string \<Rightarrow> string" where
  "backup_path P backend backupId =
     ''/backups/'' @ encodeURIComponent P backend @ ''/'' @ encodeURIComponent P backupId"

definition getBackupStatus ::
  "'n platform \<Rightarrow> client \<Rightarrow> string \<Rightarrow> string \<Rightarrow> ('n error + 'n json option) io" where
  "getBackupStatus P c backend backupId = request P c (backup_path P backend backupId) no_init"

text \<open>\<^verbatim>\<open>body: request ? JSON.stringify(request) : undefined\<close>\<close>

definition restoreBackup ::
  "'n platform \<Rightarrow> client \<Rightarrow> string \<Rightarrow> string \<Rightarrow> 'n json option \<Rightarrow>
   ('n error + 'n json option) io" where
  "restoreBackup P c backend backupId req =
     request P c (backup_path P backend backupId @ ''/restore'')
       (send ''POST'' (case req of None \<Rightarrow> None | Some r \<Rightarrow> stringify P r))"

definition getRestoreStatus ::
  "'n platform \<Rightarrow> client \<Rightarrow> string \<Rightarrow> string \<Rightarrow> ('n error + 'n json option) io" where
  "getRestoreStatus P c backend backupId =
     request P c (backup_path P backend backupId @ ''/restore'') no_init"

definition cancelBackup ::
  "'n platform \<Rightarrow> client \<Rightarrow> string \<Rightarrow> string \<Rightarrow> ('n error + unit) io" where
  "cancelBackup P c backend backupId =
     void (request P c (backup_path P backend backupId) (send ''DELETE'' None))"

text \<open>\<^verbatim>\<open>return response.nodes\<close>: a TypeError when the response is undefined or \<^verbatim>\<open>null\<close>.\<close>

definition getNodes ::
  "'n platform \<Rightarrow> client \<Rightarrow> string option \<Rightarrow> ('n error + 'n json option) io" where
  "getNodes P c output =
     await (request P c
              (''/nodes'' @ query_suffix (query_string P (opt_param ''output'' output))) no_init)
       (\<lambda>response. case get_prop response ''nodes'' of
                      None \<Rightarrow> Done (Inl TypeError)
                    | Some nodes \<Rightarrow> Done (Inr nodes))"

definition getClusterStatistics :: "'n platform \<Rightarrow> client \<Rightarrow> ('n error + 'n json option) io" where
  "getClusterStatistics P c = request P c ''/cluster/statistics'' no_init"

definition createClassification ::
  "'n platform \<Rightarrow> client \<Rightarrow> 'n json \<Rightarrow> ('n error + 'n json option) io" where
  "createClassification P c req =
     request P c ''/classifications'' (send ''POST'' (stringify P req))"

definition getClassification ::
  "'n platform \<Rightarrow> client \<Rightarrow> string \<Rightarrow> ('n error + 'n json option) io" where
  "getClassification P c ident =
     request P c (''/classifications/'' @ encodeURIComponent P ident) no_init"

subsection \<open>The client interface\<close>

text \<open>
  One constructor per operation of the interface \<^verbatim>\<open>WeaviateClient\<close>, with its
  arguments, and one result type for what the operations return.
\<close>

datatype (plugins only: code) 'n call =
    TestConnection
  | GetMeta
  | IsLive
  | IsReady
  | GetSchema
  | GetClass string
  | CreateClass "'n json"
  | UpdateClass string "'n json"
  | DeleteClass string
  | AddProperty string "'n json"
  | ListObjects string "'n option" "'n option" "string list option" "string option"
  | GetObject string string "string list option" "string option"
  | CreateObject "'n json"
  | UpdateObject string string "'n json" "'n list option" "string option"
  | PatchObject string string "'n json" "string option"
  | DeleteObject string string "string option"
  | ObjectExists string string "string option"
  | BatchCreateObjects "'n json list"
  | BatchDeleteObjects "'n json"
  | BatchAddReferences "'n json"
  | AddReference string string string "'n json" "string option"
  | UpdateReferences string string string "'n json list" "string option"
  | DeleteReference string string string "'n json" "string option"
  | GraphqlQuery string
  | NearVector string "'n NearVectorParams" "'n SearchOptions"
  | NearText string "'n NearTextParams" "'n SearchOptions"
  | NearObject string "'n NearObjectParams" "'n SearchOptions"
  | HybridSearch string "'n HybridParams" "'n SearchOptions"
  | Bm25Search string Bm25Params "'n SearchOptions"
  | GetTenants string
  | CreateTenants string "'n json list"
  | UpdateTenants string "'n json list"
  | DeleteTenants string "string list"
  | TenantExists string string
  | CreateBackup string "'n json"
  | GetBackupStatus string string
  | RestoreBackup string string "'n json option"
  | GetRestoreStatus string string
  | CancelBackup string string
  | GetNodes "string option"
  | GetClusterStatistics
  | CreateClassification "'n json"
  | GetClassification string

datatype 'n result =
    Decoded "'n json option"
  | Nothing
  | Flag bool
  | Health string
  | Connection "'n connection"
  | Page "('n json, 'n json) PaginatedResponse"

definition returning :: "('a \<Rightarrow> 'r) \<Rightarrow> ('e + 'a) io \<Rightarrow> ('e + 'r) io" where
  "returning f m = await m (\<lambda>v. Done (Inr (f v)))"

fun client_call :: "'n platform \<Rightarrow> client \<Rightarrow> 'n call \<Rightarrow> ('n error + 'n result) io" where
  "client_call P c TestConnection = returning Connection (testConnection P c)"
| "client_call P c GetMeta = returning Decoded (getMeta P c)"
| "client_call P c IsLive = returning Health (isLive P c)"
| "client_call P c IsReady = returning Health (isReady P c)"
| "client_call P c GetSchema = returning Decoded (getSchema P c)"
| "client_call P c (GetClass cn) = returning Decoded (getClass P c cn)"
| "client_call P c (CreateClass cfg) = returning Decoded (createClass P c cfg)"
| "client_call P c (UpdateClass cn u) = returning Decoded (updateClass P c cn u)"
| "client_call P c (DeleteClass cn) = returning (\<lambda>u. Nothing) (deleteClass P c cn)"
| "client_call P c (AddProperty cn p) = returning (\<lambda>u. Nothing) (addProperty P c cn p)"
| "client_call P c (ListObjects cn l off i t) = returning Page (listObjects P c cn l off i t)"
| "client_call P c (GetObject cn i inc t) = returning Decoded (getObject P c cn i inc t)"
| "client_call P c (CreateObject ob) = returning Decoded (createObject P c ob)"
| "client_call P c (UpdateObject cn i ps v t) = returning Decoded (updateObject P c cn i ps v t)"
| "client_call P c (PatchObject cn i ps t) = returning (\<lambda>u. Nothing) (patchObject P c cn i ps t)"
| "client_call P c (DeleteObject cn i t) = returning (\<lambda>u. Nothing) (deleteObject P c cn i t)"
| "client_call P c (ObjectExists cn i t) = returning Flag (objectExists P c cn i t)"
| "client_call P c (BatchCreateObjects obs) = returning Decoded (batchCreateObjects P c obs)"
| "client_call P c (BatchDeleteObjects r) = returning Decoded (batchDeleteObjects P c r)"
| "client_call P c (BatchAddReferences r) = returning Decoded (batchAddReferences P c r)"
| "client_call P c (AddReference cn i pn r t) =
     returning (\<lambda>u. Nothing) (addReference P c cn i pn r t)"
| "client_call P c (UpdateReferences cn i pn rs t) =
     returning (\<lambda>u. Nothing) (updateReferences P c cn i pn rs t)"
| "client_call P c (DeleteReference cn i pn r t) =
     returning (\<lambda>u. Nothing) (deleteReference P c cn i pn r t)"
| "client_call P c (GraphqlQuery q) = returning Decoded (graphqlQuery P c q)"
| "client_call P c (NearVector cn ps os) = returning Decoded (nearVector P c cn ps os)"
| "client_call P c (NearText cn ps os) = returning Decoded (nearText P c cn ps os)"
| "client_call P c (NearObject cn ps os) = returning Decoded (nearObject P c cn ps os)"
| "client_call P c (HybridSearch cn ps os) = returning Decoded (hybridSearch P c cn ps os)"
| "client_call P c (Bm25Search cn ps os) = returning Decoded (bm25Search P c cn ps os)"
| "client_call P c (GetTenants cn) = returning Decoded (getTenants P c cn)"
| "client_call P c (CreateTenants cn ts) = returning Decoded (createTenants P c cn ts)"
| "client_call P c (UpdateTenants cn ts) = returning (\<lambda>u. Nothing) (updateTenants P c cn ts)"
| "client_call P c (DeleteTenants cn ns) = returning (\<lambda>u. Nothing) (deleteTenants P c cn ns)"
| "client_call P c (TenantExists cn tn) = returning Flag (tenantExists P c cn tn)"
| "client_call P c (CreateBackup b r) = returning Decoded (createBackup P c b r)"
| "client_call P c (GetBackupStatus b i) = returning Decoded (getBackupStatus P c b i)"
| "client_call P c (RestoreBackup b i r) = returning Decoded (restoreBackup P c b i r)"
| "client_call P c (GetRestoreStatus b i) = returning Decoded (getRestoreStatus P c b i)"
| "client_call P c (CancelBackup b i) = returning (\<lambda>u. Nothing) (cancelBackup P c b i)"
| "client_call P c (GetNodes out) = returning Decoded (getNodes P c out)"
| "client_call P c GetClusterStatistics = returning Decoded (getClusterStatistics P c)"
| "client_call P c (CreateClassification r) = returning Decoded (createClassification P c r)"
| "client_call P c (GetClassification i) = returning Decoded (getClassification P c i)"

text \<open>The operations whose body is wrapped in a \<^verbatim>\<open>try\<close> with a \<^verbatim>\<open>catch\<close>.\<close>

fun catches :: "'n call \<Rightarrow> bool" where
  "catches TestConnection = True"
| "catches IsLive = True"
| "catches IsReady = True"
| "catches (ObjectExists cn i t) = True"
| "catches (TenantExists cn tn) = True"
| "catches other = False"

section \<open>Specification vocabulary and example inputs\<close>

text \<open>
  An operation passes the errors of the HTTP pipeline on when it is one call of
  \<open>request\<close> followed by code that, given an error, ends with that same error: no
  error of the pipeline is caught or replaced.
\<close>

definition passes_errors :: "'n platform \<Rightarrow> client \<Rightarrow> ('n error + 'a) io \<Rightarrow> bool" where
  "passes_errors P c m =
     (\<exists>endpoint options k.
        m = bind_io (request P c endpoint options) k \<and> (\<forall>e. k (Inl e) = Done (Inl e)))"

text \<open>
  A platform whose numbers are the integers, for the worked examples: it does what
  JavaScript does on integers as long as they stay below \<open>2\<^sup>5\<^sup>3\<close> in magnitude, which
  the examples do. The two encoders are the identity, which is what they do on the
  unreserved characters the examples use. The decoder for response bodies is a
  parameter.
\<close>

definition int_platform :: "(string \<Rightarrow> int json option) \<Rightarrow> int platform" where
  "int_platform parse =
     \<lparr>JSON_parse = parse, num_of_nat = int, num_add = (+), num_eq = (=),
      num_truthy = (\<lambda>n. n \<noteq> 0), num_finite = (\<lambda>n. True), num_str = show_int,
      encodeURIComponent = (\<lambda>s. s), form_urlencode = (\<lambda>s. s)\<rparr>"







text \<open>
  A platform is exact on the integers up to a bound when, on the numbers of the
  natural numbers up to it, comparison, truthiness and text are those of the natural
  numbers, and so is a sum that stays within the bound. JavaScript's doubles are exact
  up to \<open>2\<^sup>5\<^sup>3\<close>.
\<close>

definition integers_exact :: "'n platform \<Rightarrow> nat \<Rightarrow> bool" where
  "integers_exact P B =
     (\<forall>a b. a \<le> B \<and> b \<le> B \<longrightarrow>
        num_eq P (num_of_nat P a) (num_of_nat P b) = (a = b) \<and>
        num_truthy P (num_of_nat P a) = (a \<noteq> 0) \<and>
        num_str P (num_of_nat P a) = show_nat a \<and>
        (a + b \<le> B \<longrightarrow> num_add P (num_of_nat P a) (num_of_nat P b) = num_of_nat P (a + b)))"

definition malformed :: "string \<Rightarrow> int json option" where
  "malformed s = None"

definition local_client :: client where
  "local_client = createWeaviateClient
     \<lparr>weaviateUrl = Some ''http://localhost:8080/'', apiKey = None, openaiApiKey = None,
      cohereApiKey = None, huggingfaceApiKey = None, anthropicApiKey = None,
      azureApiKey = None\<rparr>"

definition no_url_client :: client where
  "no_url_client = createWeaviateClient
     \<lparr>weaviateUrl = None, apiKey = Some ''secret'', openaiApiKey = None,
      cohereApiKey = None, huggingfaceApiKey = None, anthropicApiKey = None,
      azureApiKey = None\<rparr>"

text \<open>Networks that answer every request alike.\<close>

definition replies :: "int \<Rightarrow> string \<Rightarrow> http_request \<Rightarrow> fetch_outcome" where
  "replies st body req =
     Responded \<lparr>status = st, header_get = (\<lambda>k. None), body_text = body\<rparr>"

definition rate_limited :: "string option \<Rightarrow> http_request \<Rightarrow> fetch_outcome" where
  "rate_limited retryAfter req =
     Responded \<lparr>status = 429,
                header_get = (\<lambda>k. if k = ''Retry-After'' then retryAfter else None),
                body_text = []\<rparr>"

definition unreachable :: "http_request \<Rightarrow> fetch_outcome" where
  "unreachable req = Rejected ''network down''"

text \<open>Decoders giving a listing with one object and a total, and an empty listing.\<close>

definition one_object_parse :: "string \<Rightarrow> int json option" where
  "one_object_parse s = Some (JObj [(''objects'', JArr [JNull]), (''totalResults'', JNum 7)])"

definition no_objects_parse :: "string \<Rightarrow> int json option" where
  "no_objects_parse s = Some (JObj [(''objects'', JArr [])])"

definition one_page :: "(int json, int json) PaginatedResponse" where
  "one_page = \<lparr>items = [JNull], count = 1, total = Some (JNum 7), hasMore = True,
                nextCursor = Some ''1''\<rparr>"

text \<open>The near-text parameters of the worked example: one concept, nothing else set.\<close>

definition cat_params :: "'n NearTextParams" where
  "cat_params = \<lparr>nt_concepts = [''cat''], nt_certainty = None, nt_distance = None,
                  nt_moveTo = None, nt_moveAwayFrom = None\<rparr>"






section \<open>Properties\<close>

subsection \<open>Running asynchronous operations\<close>

lemma run_io_bind: "run_io net (bind_io m f) = run_io net (f (run_io net m))"
  by (induction m arbitrary: f) simp_all

lemma run_io_await:
  "run_io net (await m f) = (case run_io net m of Inl e \<Rightarrow> Inl e | Inr v \<Rightarrow> run_io net (f v))"
  by (simp add: await_def run_io_bind split: sum.split)

lemma run_io_try_catch:
  "run_io net (try_catch m h) =
     (case run_io net m of Inl e \<Rightarrow> run_io net (h e) | Inr v \<Rightarrow> Inr v)"
  by (simp add: try_catch_def run_io_bind split: sum.split)

lemma run_returning:
  "run_io net (returning f m) = (case run_io net m of Inl e \<Rightarrow> Inl e | Inr v \<Rightarrow> Inr (f v))"
  by (simp add: returning_def run_io_await split: sum.split)

lemma bind_io_Done: "bind_io m Done = m"
  by (induction m) simp_all

lemma bind_io_assoc: "bind_io (bind_io m f) g = bind_io m (\<lambda>x. bind_io (f x) g)"
  by (induction m) simp_all

lemma local_base: "baseUrl local_client = ''http://localhost:8080''"
  by (simp add: local_client_def createWeaviateClient_def str_or_def strip_trailing_slash_def)

lemma no_url_base: "baseUrl no_url_client = []"
  by (simp add: no_url_client_def createWeaviateClient_def str_or_def strip_trailing_slash_def)

subsection \<open>Paginated results\<close>

lemma listObjects_Inr:
  assumes "run_io net (listObjects P c cn lim off incl tenant) = Inr p"
  shows "\<exists>objs tot. p = createPaginatedResponse objs
           \<lparr>opt_total = tot,
            opt_hasMore = Some (num_eq P (num_of_nat P (length objs))
                                  (num_or P lim (num_of_nat P 20))),
            opt_nextCursor =
              (if num_eq P (num_of_nat P (length objs)) (num_or P lim (num_of_nat P 20))
               then Some (num_str P (num_add P (num_or P off (num_of_nat P 0))
                                       (num_or P lim (num_of_nat P 20))))
               else None)\<rparr>"
  using assms
  by (auto simp: listObjects_def run_io_await Let_def
           split: sum.splits option.splits json.splits if_splits)

lemma listObjects_source:
  assumes "run_io net (listObjects P c cn lim off incl tenant) = Inr p"
  shows "\<exists>response.
           run_io net (request P c (listObjects_endpoint P cn lim off incl tenant) no_init)
             = Inr response \<and>
           get_prop response ''objects'' = Some (Some (JArr (items p))) \<and>
           total p = get_prop_opt response ''totalResults''"
  using assms
  by (auto simp: listObjects_def run_io_await Let_def createPaginatedResponse_def
           split: sum.splits option.splits json.splits if_splits)

lemma one_object_page:
  "run_io (replies 200 ''{...}'')
     (listObjects (int_platform one_object_parse) local_client ''Article'' (Some 1) None None None)
   = Inr \<lparr>items = [JNull], count = 1, total = Some (JNum 7), hasMore = True,
          nextCursor = Some ''1''\<rparr>"
  by (simp add: listObjects_def run_io_await request_def local_base handle_response_def
        replies_def response_ok_def int_platform_def one_object_parse_def
        createPaginatedResponse_def num_or_def show_int_def show_nat.simps Let_def)

lemma empty_page_limit_0:
  "run_io (replies 200 ''{...}'')
     (listObjects (int_platform no_objects_parse) local_client ''Article'' (Some 0) None None None)
   = Inr \<lparr>items = [], count = 0, total = None, hasMore = False, nextCursor = None\<rparr>"
  by (simp add: listObjects_def run_io_await request_def local_base handle_response_def
        replies_def response_ok_def int_platform_def no_objects_parse_def
        createPaginatedResponse_def num_or_def show_int_def show_nat.simps Let_def)

lemma int_platform_exact: "integers_exact (int_platform parse) B"
  by (simp add: integers_exact_def int_platform_def show_int_def)

text \<open>
  C1, as the code has it. The count equals the number of items for every result of
  \<^verbatim>\<open>createPaginatedResponse\<close>, of \<^verbatim>\<open>emptyPaginatedResponse\<close> and of \<^verbatim>\<open>listObjects\<close>. For
  \<^verbatim>\<open>emptyPaginatedResponse\<close> and \<^verbatim>\<open>listObjects\<close> the cursor is present exactly when
  \<^verbatim>\<open>hasMore\<close> is true. \<^verbatim>\<open>createPaginatedResponse\<close> copies the cursor of its options and
  takes \<^verbatim>\<open>hasMore\<close> from them (false when unset), so its result has a cursor only with
  \<^verbatim>\<open>hasMore\<close> exactly when the caller's options do.
\<close>

theorem C1_paginated_result_invariant:
  "count (createPaginatedResponse its options)
     = length (items (createPaginatedResponse its options)) \<and>
   hasMore (createPaginatedResponse its options) = (opt_hasMore options = Some True) \<and>
   nextCursor (createPaginatedResponse its options) = opt_nextCursor options \<and>
   ((nextCursor (createPaginatedResponse its options) \<noteq> None
       \<longrightarrow> hasMore (createPaginatedResponse its options))
     = (opt_nextCursor options \<noteq> None \<longrightarrow> opt_hasMore options = Some True)) \<and>
   count (emptyPaginatedResponse :: ('a, 'n) PaginatedResponse)
     = length (items (emptyPaginatedResponse :: ('a, 'n) PaginatedResponse)) \<and>
   ((nextCursor (emptyPaginatedResponse :: ('a, 'n) PaginatedResponse) \<noteq> None)
     = hasMore (emptyPaginatedResponse :: ('a, 'n) PaginatedResponse)) \<and>
   (run_io net (listObjects P c cn lim off incl tenant) = Inr p \<longrightarrow>
      count p = length (items p) \<and> ((nextCursor p \<noteq> None) = hasMore p))"
proof -
  have "count p = length (items p) \<and> ((nextCursor p \<noteq> None) = hasMore p)"
    if "run_io net (listObjects P c cn lim off incl tenant) = Inr p"
    using listObjects_Inr [OF that]
    by (auto simp: createPaginatedResponse_def split: if_splits)
  then show ?thesis
    by (auto simp: createPaginatedResponse_def emptyPaginatedResponse_def split: option.splits)
qed

text \<open>
  C1, witness: a listing of one object with limit 1; the options given to
  \<^verbatim>\<open>createPaginatedResponse\<close> there satisfy the cursor condition.
\<close>

theorem C1_paginated_result_invariant_witness:
  "run_io (replies 200 ''{...}'')
     (listObjects (int_platform one_object_parse) local_client ''Article'' (Some 1) None None None)
   = Inr one_page \<and>
   count one_page = length (items one_page) \<and>
   ((nextCursor one_page \<noteq> None) = hasMore one_page)"
proof -
  have run: "run_io (replies 200 ''{...}'')
     (listObjects (int_platform one_object_parse) local_client ''Article'' (Some 1) None None None)
   = Inr one_page"
    using one_object_page by (simp add: one_page_def)
  from C1_paginated_result_invariant
         [where net = "replies 200 ''{...}''" and P = "int_platform one_object_parse"
            and c = local_client and cn = "''Article''" and lim = "Some 1" and off = None
            and incl = None and tenant = None and p = one_page]
       run
  show ?thesis by blast
qed

text \<open>
  C1, counterexample to the claim as stated: \<^verbatim>\<open>createPaginatedResponse([], { nextCursor: "20" })\<close>
  has a cursor although \<^verbatim>\<open>hasMore\<close> is false.
\<close>

theorem C1_paginated_result_invariant_counterexample:
  "nextCursor (createPaginatedResponse ([] :: int list)
      \<lparr>opt_total = (None :: int option), opt_hasMore = None, opt_nextCursor = Some ''20''\<rparr>)
     = Some ''20'' \<and>
   hasMore (createPaginatedResponse ([] :: int list)
      \<lparr>opt_total = (None :: int option), opt_hasMore = None, opt_nextCursor = Some ''20''\<rparr>)
     = False"
  by (simp add: createPaginatedResponse_def)

subsection \<open>The request pipeline\<close>

text \<open>
  C2, evaluated. A 429 response gives a rate-limit error whose seconds are 60 when
  the header is absent and the parsed integer when the header starts with one. When
  the header holds no integer (here an HTTP date, which the header may carry) the
  seconds are \<^verbatim>\<open>NaN\<close>, not 60.
\<close>

theorem C2_retry_after_not_defaulted:
  "run_io (rate_limited None) (request P local_client ''/schema'' no_init)
     = Inl (RateLimitError ''Rate limit exceeded'' (Num 60)) \<and>
   run_io (rate_limited (Some ''120'')) (request P local_client ''/schema'' no_init)
     = Inl (RateLimitError ''Rate limit exceeded'' (Num 120)) \<and>
   run_io (rate_limited (Some ''Wed, 21 Oct 2015 07:28:00 GMT''))
       (request P local_client ''/schema'' no_init)
     = Inl (RateLimitError ''Rate limit exceeded'' NaN)"
  by (simp add: request_def local_base handle_response_def rate_limited_def parseInt_def
        is_space_def is_digit_def digit_val_def)

subsection \<open>Propagation of errors\<close>

lemma passes_request: "passes_errors P c (request P c endpoint options)"
  unfolding passes_errors_def
  by (rule exI [of _ endpoint], rule exI [of _ options], rule exI [of _ Done])
     (simp add: bind_io_Done)

lemma passes_await:
  assumes "passes_errors P c m"
  shows "passes_errors P c (await m f)"
proof -
  from assms obtain endpoint options k where
    m: "m = bind_io (request P c endpoint options) k" and k: "\<And>e. k (Inl e) = Done (Inl e)"
    unfolding passes_errors_def by blast
  let ?g = "\<lambda>r. case r of Inl e \<Rightarrow> Done (Inl e) | Inr v \<Rightarrow> f v"
  have "await m f = bind_io (request P c endpoint options) (\<lambda>x. bind_io (k x) ?g)"
    by (simp add: await_def m bind_io_assoc)
  moreover have "\<And>e. bind_io (k (Inl e)) ?g = Done (Inl e)"
    by (simp add: k)
  ultimately show ?thesis
    unfolding passes_errors_def by blast
qed

lemma passes_void: "passes_errors P c m \<Longrightarrow> passes_errors P c (void m)"
  by (simp add: void_def passes_await)

lemma passes_returning: "passes_errors P c m \<Longrightarrow> passes_errors P c (returning f m)"
  by (simp add: returning_def passes_await)

lemma passes_errors_run:
  assumes "passes_errors P c m"
  shows "\<exists>endpoint options. \<forall>net e.
           run_io net (request P c endpoint options) = Inl e \<longrightarrow> run_io net m = Inl e"
proof -
  from assms obtain endpoint options k where
    m: "m = bind_io (request P c endpoint options) k" and k: "\<And>e. k (Inl e) = Done (Inl e)"
    unfolding passes_errors_def by blast
  have "run_io net m = Inl e" if "run_io net (request P c endpoint options) = Inl e" for net e
    by (simp add: m run_io_bind that k)
  then show ?thesis by blast
qed

lemma non_catching_passes:
  assumes "\<not> catches call"
  shows "passes_errors P c (client_call P c call)"
  using assms
  by (cases call)
     (simp_all add: passes_returning passes_void passes_await passes_request
        getMeta_def getSchema_def getClass_def createClass_def updateClass_def deleteClass_def
        addProperty_def listObjects_def getObject_def createObject_def updateObject_def
        patchObject_def deleteObject_def batchCreateObjects_def batchDeleteObjects_def
        batchAddReferences_def addReference_def updateReferences_def deleteReference_def
        graphqlQuery_def nearVector_def nearText_def nearObject_def hybridSearch_def
        bm25Search_def getTenants_def createTenants_def updateTenants_def deleteTenants_def
        createBackup_def getBackupStatus_def restoreBackup_def getRestoreStatus_def
        cancelBackup_def getNodes_def getClusterStatistics_def createClassification_def
        getClassification_def Let_def)

lemma testConnection_run:
  "run_io net (testConnection P c) =
     (case run_io net (getMeta P c) of
        Inl e \<Rightarrow> Inr \<lparr>connected = False, message = MessageOf e\<rparr>
      | Inr meta \<Rightarrow>
          (case meta of
             None \<Rightarrow> Inr \<lparr>connected = False, message = MessageOf TypeError\<rparr>
           | Some JNull \<Rightarrow> Inr \<lparr>connected = False, message = MessageOf TypeError\<rparr>
           | Some v \<Rightarrow> Inr \<lparr>connected = True,
                            message = ConnectedTo (get_prop_opt meta ''version'')
                                        (get_prop_opt meta ''hostname'')\<rparr>))"
  by (simp add: testConnection_def run_io_try_catch run_io_await
           split: sum.split option.split json.split)

lemma isLive_run:
  "run_io net (isLive P c) =
     (case run_io net (request P c ''/.well-known/live'' no_init) of
        Inl e \<Rightarrow> Inr ''error'' | Inr v \<Rightarrow> Inr ''ok'')"
  by (simp add: isLive_def run_io_try_catch run_io_await split: sum.split)

lemma isReady_run:
  "run_io net (isReady P c) =
     (case run_io net (request P c ''/.well-known/ready'' no_init) of
        Inl e \<Rightarrow> Inr ''error'' | Inr v \<Rightarrow> Inr ''ok'')"
  by (simp add: isReady_def run_io_try_catch run_io_await split: sum.split)

lemma tenantExists_run:
  "run_io net (tenantExists P c className tenantName) =
     (case run_io net (getTenants P c className) of
        Inl e \<Rightarrow> Inr False
      | Inr tenants \<Rightarrow>
          Inr (case tenants of
                 Some (JArr ts) \<Rightarrow> tenants_some ts tenantName = Some True
               | _ \<Rightarrow> False))"
  by (simp add: tenantExists_def run_io_try_catch run_io_await
           split: sum.split option.split json.split)

lemma catching_never_throws:
  assumes "catches call"
  shows "\<exists>r. run_io net (client_call P c call) = Inr r"
  using assms
  by (cases call)
     (simp_all add: run_returning testConnection_run isLive_run isReady_run tenantExists_run
        objectExists_def split: sum.split option.split json.split)

lemma unreachable_request:
  "run_io unreachable (request P local_client endpoint options)
     = Inl (FetchRejected ''network down'')"
  by (simp add: request_def local_base unreachable_def)

text \<open>
  C3, as the code has it. Five operations catch: the connection test, the liveness
  and readiness probes, and the object-exists and tenant-exists checks. Every other
  operation of the client is one call of the request pipeline followed by code that
  passes each error of the pipeline on unchanged, so whenever that request fails
  with an error the operation fails with the same error. The five never throw, and
  turn a failure into a negative result: the connection test into
  \<^verbatim>\<open>connected: false\<close> with the error's message, the probes into the status
  \<^verbatim>\<open>error\<close>, the tenant check into false, and the object check into false when its
  HEAD request is rejected by the transport.
\<close>

theorem C3_error_propagation:
  "(\<not> catches call \<longrightarrow>
      passes_errors P c (client_call P c call) \<and>
      (\<exists>endpoint options. \<forall>net e.
         run_io net (request P c endpoint options) = Inl e \<longrightarrow>
         run_io net (client_call P c call) = Inl e)) \<and>
   (catches call \<longrightarrow> (\<exists>r. run_io net (client_call P c call) = Inr r)) \<and>
   (run_io net (getMeta P c) = Inl e \<longrightarrow>
      run_io net (testConnection P c) = Inr \<lparr>connected = False, message = MessageOf e\<rparr>) \<and>
   (run_io net (request P c ''/.well-known/live'' no_init) = Inl e \<longrightarrow>
      run_io net (isLive P c) = Inr ''error'') \<and>
   (run_io net (request P c ''/.well-known/ready'' no_init) = Inl e \<longrightarrow>
      run_io net (isReady P c) = Inr ''error'') \<and>
   (run_io net (getTenants P c className) = Inl e \<longrightarrow>
      run_io net (tenantExists P c className tenantName) = Inr False) \<and>
   run_io (\<lambda>req. Rejected msg) (objectExists P c className ident tenant) = Inr False"
proof -
  have "passes_errors P c (client_call P c call) \<and>
      (\<exists>endpoint options. \<forall>net e.
         run_io net (request P c endpoint options) = Inl e \<longrightarrow>
         run_io net (client_call P c call) = Inl e)"
    if "\<not> catches call"
    using non_catching_passes [OF that] passes_errors_run by blast
  moreover have "\<exists>r. run_io net (client_call P c call) = Inr r" if "catches call"
    using that by (rule catching_never_throws)
  moreover have "run_io (\<lambda>req. Rejected msg) (objectExists P c className ident tenant) = Inr False"
    by (simp add: objectExists_def)
  ultimately show ?thesis
    by (simp add: testConnection_run isLive_run isReady_run tenantExists_run)
qed

text \<open>
  C3, witness: with the network down, fetching the schema fails with the
  transport's error, and the five catching operations return their negative result.
\<close>

theorem C3_error_propagation_witness:
  "passes_errors (int_platform malformed) local_client
     (client_call (int_platform malformed) local_client GetSchema) \<and>
   (\<exists>r. run_io unreachable (client_call (int_platform malformed) local_client IsLive) = Inr r) \<and>
   run_io unreachable (testConnection (int_platform malformed) local_client)
     = Inr \<lparr>connected = False, message = MessageOf (FetchRejected ''network down'')\<rparr> \<and>
   run_io unreachable (isLive (int_platform malformed) local_client) = Inr ''error'' \<and>
   run_io unreachable (isReady (int_platform malformed) local_client) = Inr ''error'' \<and>
   run_io unreachable (tenantExists (int_platform malformed) local_client ''Article'' ''t1'')
     = Inr False \<and>
   run_io (\<lambda>req. Rejected ''network down'')
     (objectExists (int_platform malformed) local_client ''Article'' ''42'' None) = Inr False"
  using
    C3_error_propagation [where call = GetSchema and P = "int_platform malformed"
      and c = local_client and net = unreachable and e = "FetchRejected ''network down''"
      and className = "''Article''" and tenantName = "''t1''" and msg = "''network down''"
      and ident = "''42''" and tenant = None]
    C3_error_propagation [where call = IsLive and P = "int_platform malformed"
      and c = local_client and net = unreachable and e = "FetchRejected ''network down''"]
  by (simp add: unreachable_request getMeta_def getTenants_def)

text \<open>
  C3, counterexample to the claim as stated: the connection test is not one of the
  four operations the claim excepts, and with no base URL its request fails with
  the authentication error, yet the operation returns a value instead of failing.
\<close>

theorem C3_error_propagation_counterexample:
  "run_io unreachable (getMeta (int_platform malformed) no_url_client)
     = Inl (AuthenticationError ''No Weaviate URL provided. Include X-Weaviate-URL header.'') \<and>
   run_io unreachable (client_call (int_platform malformed) no_url_client TestConnection)
     = Inr (Connection \<lparr>connected = False,
              message = MessageOf (AuthenticationError
                ''No Weaviate URL provided. Include X-Weaviate-URL header.'')\<rparr>) \<and>
   \<not> passes_errors (int_platform malformed) no_url_client
        (client_call (int_platform malformed) no_url_client TestConnection)"
proof -
  have req: "request (int_platform malformed) no_url_client endpoint options
      = Done (Inl (AuthenticationError
                ''No Weaviate URL provided. Include X-Weaviate-URL header.''))"
    for endpoint options
    by (simp add: request_def no_url_base)
  have call: "client_call (int_platform malformed) no_url_client TestConnection
      = Done (Inr (Connection \<lparr>connected = False,
              message = MessageOf (AuthenticationError
                ''No Weaviate URL provided. Include X-Weaviate-URL header.'')\<rparr>))"
    by (simp add: returning_def testConnection_def getMeta_def req await_def try_catch_def)
  have "\<not> passes_errors (int_platform malformed) no_url_client
        (client_call (int_platform malformed) no_url_client TestConnection)"
  proof
    assume "passes_errors (int_platform malformed) no_url_client
        (client_call (int_platform malformed) no_url_client TestConnection)"
    then obtain endpoint options k where
      eq: "client_call (int_platform malformed) no_url_client TestConnection
             = bind_io (request (int_platform malformed) no_url_client endpoint options) k"
      and k: "\<And>e. k (Inl e) = Done (Inl e)"
      unfolding passes_errors_def by blast
    from eq have "client_call (int_platform malformed) no_url_client TestConnection
             = Done (Inl (AuthenticationError
                ''No Weaviate URL provided. Include X-Weaviate-URL header.''))"
      by (simp only: req bind_io.simps k)
    with call show False
      by simp
  qed
  moreover have "run_io unreachable (getMeta (int_platform malformed) no_url_client)
     = Inl (AuthenticationError ''No Weaviate URL provided. Include X-Weaviate-URL header.'')"
    by (simp add: getMeta_def req)
  moreover have
    "run_io unreachable (client_call (int_platform malformed) no_url_client TestConnection)
     = Inr (Connection \<lparr>connected = False,
              message = MessageOf (AuthenticationError
                ''No Weaviate URL provided. Include X-Weaviate-URL header.'')\<rparr>)"
    by (simp only: call run_io.simps)
  ultimately show ?thesis
    by blast
qed

text \<open>
  C4. With a base URL configured and a response delivered, status 429 gives the
  rate-limit error and status 404 the not-found error for the endpoint, whatever
  the body is and whether or not it decodes as JSON: neither reaches the handling
  of the other non-2xx statuses.
\<close>

theorem C4_status_decision_list:
  "baseUrl c \<noteq> [] \<Longrightarrow>
   (status r = 429 \<longrightarrow>
      (\<exists>secs. run_io (\<lambda>req. Responded r) (request P c endpoint options) =
         Inl (RateLimitError ''Rate limit exceeded'' secs))) \<and>
   (status r = 404 \<longrightarrow>
      run_io (\<lambda>req. Responded r) (request P c endpoint options) =
        Inl (NotFoundError ''Resource'' endpoint))"
  by (simp add: request_def handle_response_def)

text \<open>C4, witness: a body that is not JSON, with status 429 and with status 404.\<close>

theorem C4_status_decision_list_witness:
  "baseUrl local_client \<noteq> [] \<and>
   (\<exists>secs. run_io (\<lambda>req. Responded \<lparr>status = 429, header_get = (\<lambda>k. None),
                                      body_text = ''<html>not json''\<rparr>)
             (request (int_platform malformed) local_client ''/schema'' no_init) =
           Inl (RateLimitError ''Rate limit exceeded'' secs)) \<and>
   run_io (\<lambda>req. Responded \<lparr>status = 404, header_get = (\<lambda>k. None),
                             body_text = ''<html>not json''\<rparr>)
     (request (int_platform malformed) local_client ''/schema'' no_init) =
     Inl (NotFoundError ''Resource'' ''/schema'')"
proof -
  have base: "baseUrl local_client \<noteq> []"
    by (simp add: local_base)
  from C4_status_decision_list [OF base, where r = "\<lparr>status = 429, header_get = (\<lambda>k. None),
         body_text = ''<html>not json''\<rparr>" and P = "int_platform malformed"
         and endpoint = "''/schema''" and options = no_init]
       C4_status_decision_list [OF base, where r = "\<lparr>status = 404, header_get = (\<lambda>k. None),
         body_text = ''<html>not json''\<rparr>" and P = "int_platform malformed"
         and endpoint = "''/schema''" and options = no_init]
       base
  show ?thesis by simp
qed

text \<open>
  C5. With no base URL, \<^verbatim>\<open>request\<close> is finished at once with the authentication
  error, for every endpoint and every method, body and headers: no \<^verbatim>\<open>fetch\<close> is
  issued, whatever the network would answer.
\<close>

theorem C5_no_base_url_no_io:
  "baseUrl c = [] \<Longrightarrow>
   request P c endpoint options =
     Done (Inl (AuthenticationError
       ''No Weaviate URL provided. Include X-Weaviate-URL header.'')) \<and>
   io_requests net (request P c endpoint options) = [] \<and>
   run_io net (request P c endpoint options) =
     Inl (AuthenticationError ''No Weaviate URL provided. Include X-Weaviate-URL header.'') \<and>
   code (AuthenticationError
       ''No Weaviate URL provided. Include X-Weaviate-URL header.'' :: 'n error)
     = Some ''AUTHENTICATION_FAILED''"
  by (simp add: request_def)

text \<open>C5, witness: a client built from credentials without a URL.\<close>

theorem C5_no_base_url_no_io_witness:
  "baseUrl no_url_client = [] \<and>
   request (int_platform malformed) no_url_client ''/schema''
       (send ''POST'' (Some ''{}'')) =
     Done (Inl (AuthenticationError
       ''No Weaviate URL provided. Include X-Weaviate-URL header.'')) \<and>
   io_requests unreachable
       (request (int_platform malformed) no_url_client ''/schema''
          (send ''POST'' (Some ''{}''))) = []"
  using C5_no_base_url_no_io [OF no_url_base, where P = "int_platform malformed"
          and endpoint = "''/schema''" and options = "send ''POST'' (Some ''{}'')"
          and net = unreachable]
        no_url_base
  by simp

subsection \<open>Serialization of filters and queries\<close>

lemma defined_props_append: "defined_props (xs @ ys) = defined_props xs @ defined_props ys"
  by (induction xs rule: defined_props.induct) simp_all

lemma defined_props_keys: "fst ` set (defined_props kvs) \<subseteq> fst ` set kvs"
  by (induction kvs rule: defined_props.induct) auto

lemma defined_props_mem: "(k, v) \<in> set (defined_props kvs) \<Longrightarrow> (k, Some v) \<in> set kvs"
  by (induction kvs rule: defined_props.induct) auto

lemma mset_in_order: "mset (in_order ks props) = mset props"
  by (induction ks arbitrary: props) (simp_all add: multiset_partition [symmetric])




text \<open>The properties written for a node are its defined properties, in some order.\<close>

lemma where_props_mset:
  "mset (where_props f) =
   mset (defined_props
     [(''operator'', Some (JStr (operator_name (operator f)))),
      (''operands'', map_option (\<lambda>fs. JArr (map where_json fs)) (operands f)),
      (''path'', map_option (\<lambda>p. JArr (map JStr p)) (path f)),
      (''valueInt'', map_option JNum (valueInt f)),
      (''valueNumber'', map_option JNum (valueNumber f)),
      (''valueBoolean'', map_option JBool (valueBoolean f)),
      (''valueString'', map_option JStr (valueString f)),
      (''valueText'', map_option JStr (valueText f)),
      (''valueDate'', map_option JStr (valueDate f)),
      (''valueGeoRange'', valueGeoRange f),
      (''valueIntArray'', map_option (\<lambda>xs. JArr (map JNum xs)) (valueIntArray f)),
      (''valueNumberArray'', map_option (\<lambda>xs. JArr (map JNum xs)) (valueNumberArray f)),
      (''valueBooleanArray'', map_option (\<lambda>xs. JArr (map JBool xs)) (valueBooleanArray f)),
      (''valueStringArray'', map_option (\<lambda>xs. JArr (map JStr xs)) (valueStringArray f)),
      (''valueTextArray'', map_option (\<lambda>xs. JArr (map JStr xs)) (valueTextArray f)),
      (''valueDateArray'', map_option (\<lambda>xs. JArr (map JStr xs)) (valueDateArray f))])"
  by (cases f) (simp add: where_props_def mset_in_order)

lemma written_keys:
  "fst ` set (where_props f)
     \<subseteq> {''operator'', ''operands'', ''path''} \<union> set value_field_names"
proof -
  have "set (where_props f) = set_mset (mset (where_props f))"
    by simp
  also have "\<dots> \<subseteq> {kv. fst kv \<in> {''operator'', ''operands'', ''path''} \<union> set value_field_names}"
    unfolding where_props_mset using defined_props_keys
    by (fastforce simp: value_field_names_def)
  finally show ?thesis
    by auto
qed


















lemma starts_with_append: "starts_with (t @ b) t"
  by (induction t) simp_all

lemma str_includes_here: "str_includes (t @ b) t"
  using starts_with_append [of t b] by (cases "t @ b") auto

lemma str_includes_mid: "str_includes (a @ t @ b) t"
  by (induction a) (simp_all add: str_includes_here)

lemma str_includes_eq: "s = a @ t @ b \<Longrightarrow> str_includes s t"
  by (simp add: str_includes_mid)

lemma query_has_clause:
  "str_includes (buildGraphQLGetQuery P className searchClause options) searchClause"
  by (rule str_includes_eq [where a = "''{'' @ nl @ sp 6 @ ''Get {'' @ nl @ sp 8 @ className
            @ ''('' @ nl @ sp 10"])
     (simp add: buildGraphQLGetQuery_def Let_def)

lemma query_has_limit:
  "str_includes (buildGraphQLGetQuery P className searchClause options)
     (''limit: '' @ show_int (int_or (so_limit options) 10))"
  by (rule str_includes_eq [where a = "''{'' @ nl @ sp 6 @ ''Get {'' @ nl @ sp 8 @ className
            @ ''('' @ nl @ sp 10 @ searchClause @ nl @ sp 10"])
     (simp add: buildGraphQLGetQuery_def Let_def)


lemma show_int_5: "show_int 5 = ''5''"
  by (simp add: show_int_def show_nat.simps)


















lemma cat_clause: \<open>nearTextClause P cat_params = ''nearText: { concepts: ["cat"] }''\<close>
  by (simp add: nearTextClause_def cat_params_def json_strings_def json_quote_def
        json_escape_char_def num_arg_def move_clause_def)

lemma cat_document:
  \<open>buildGraphQLGetQuery P ''Article'' (nearTextClause P cat_params)
     (no_search_options\<lparr>so_limit := Some 5\<rparr>) =
   ''{'' @ nl @
   ''      Get {'' @ nl @
   ''        Article('' @ nl @
   ''          nearText: { concepts: ["cat"] }'' @ nl @
   ''          limit: 5'' @ nl @
   ''          '' @ nl @
   ''          '' @ nl @
   ''        ) {'' @ nl @
   ''          _additional { id distance certainty }'' @ nl @
   ''        }'' @ nl @
   ''      }'' @ nl @
   ''    }''\<close>
  by (simp add: buildGraphQLGetQuery_def cat_clause no_search_options_def int_or_def show_int_5
        sp_def Let_def numeral_eq_Suc)

text \<open>
  C7. For the concepts \<^verbatim>\<open>["cat"]\<close> with nothing else set, the search clause is
  exactly \<^verbatim>\<open>nearText: { concepts: ["cat"] }\<close>; with limit 5 the document contains
  that clause and \<^verbatim>\<open>limit: 5\<close>, for every collection name and every other option; and
  the document for the collection \<^verbatim>\<open>Article\<close> with no other option has no key
  \<^verbatim>\<open>certainty:\<close> and no key \<^verbatim>\<open>distance:\<close> (the two words occur in it only as selected
  fields of the default \<^verbatim>\<open>_additional\<close> block).
\<close>

theorem C7_near_text_example:
  \<open>nearTextClause P cat_params = ''nearText: { concepts: ["cat"] }'' \<and>
   str_includes
     (buildGraphQLGetQuery P className (nearTextClause P cat_params)
        (options\<lparr>so_limit := Some 5\<rparr>))
     ''nearText: { concepts: ["cat"] }'' \<and>
   str_includes
     (buildGraphQLGetQuery P className (nearTextClause P cat_params)
        (options\<lparr>so_limit := Some 5\<rparr>))
     ''limit: 5'' \<and>
   nearText P c className cat_params (options\<lparr>so_limit := Some 5\<rparr>) =
     graphqlQuery P c
       (buildGraphQLGetQuery P className (nearTextClause P cat_params)
          (options\<lparr>so_limit := Some 5\<rparr>)) \<and>
   \<not> str_includes
     (buildGraphQLGetQuery P ''Article'' (nearTextClause P cat_params)
        (no_search_options\<lparr>so_limit := Some 5\<rparr>))
     ''certainty:'' \<and>
   \<not> str_includes
     (buildGraphQLGetQuery P ''Article'' (nearTextClause P cat_params)
        (no_search_options\<lparr>so_limit := Some 5\<rparr>))
     ''distance:''\<close>
proof -
  have a: \<open>str_includes
     (buildGraphQLGetQuery P className (nearTextClause P cat_params)
        (options\<lparr>so_limit := Some 5\<rparr>))
     ''nearText: { concepts: ["cat"] }''\<close>
    using query_has_clause [of P className "nearTextClause P cat_params"
            "options\<lparr>so_limit := Some 5\<rparr>"]
    by (simp only: cat_clause)
  have b: "str_includes
     (buildGraphQLGetQuery P className (nearTextClause P cat_params)
        (options\<lparr>so_limit := Some 5\<rparr>))
     ''limit: 5''"
    using query_has_limit [of P className "nearTextClause P cat_params"
            "options\<lparr>so_limit := Some 5\<rparr>"]
    by (simp add: int_or_def show_int_5)
  have c: "\<not> str_includes
     (buildGraphQLGetQuery P ''Article'' (nearTextClause P cat_params)
        (no_search_options\<lparr>so_limit := Some 5\<rparr>))
     ''certainty:''"
    by (simp add: cat_document nl_def)
  have d: "\<not> str_includes
     (buildGraphQLGetQuery P ''Article'' (nearTextClause P cat_params)
        (no_search_options\<lparr>so_limit := Some 5\<rparr>))
     ''distance:''"
    by (simp add: cat_document nl_def)
  from cat_clause a b c d show ?thesis
    by (simp add: nearText_def)
qed

subsection \<open>The listing operation\<close>

text \<open>
  C8, as the code has it. For every result of \<^verbatim>\<open>listObjects\<close>, \<^verbatim>\<open>hasMore\<close> is true
  exactly when the number of items is \<^verbatim>\<open>===\<close> the effective limit, which is the
  caller's limit when it is given and truthy (not 0, not \<^verbatim>\<open>NaN\<close>), and 20 otherwise;
  the cursor is then the text of the sum of the offset (0 when not given or falsy)
  and that limit, in the arithmetic of the platform, and is absent when \<^verbatim>\<open>hasMore\<close> is
  false. The items are the \<^verbatim>\<open>objects\<close> of the service's response; its reported total
  is handed on and takes no part in \<^verbatim>\<open>hasMore\<close>. Where the platform is exact on the
  integers up to a bound (JavaScript: \<open>2\<^sup>5\<^sup>3\<close>) and limit, offset, the number of items
  and the sum are integers within it, \<^verbatim>\<open>hasMore\<close> says that the number of items equals
  the limit, and the cursor is the decimal text of offset plus limit.
\<close>

theorem C8_list_objects_has_more:
  assumes "run_io net (listObjects P c cn lim off incl tenant) = Inr p"
  shows "hasMore p =
           num_eq P (num_of_nat P (length (items p)))
             (case lim of None \<Rightarrow> num_of_nat P 20
              | Some l \<Rightarrow> if num_truthy P l then l else num_of_nat P 20) \<and>
         nextCursor p =
           (if hasMore p
            then Some (num_str P (num_add P
                   (case off of None \<Rightarrow> num_of_nat P 0
                    | Some f \<Rightarrow> if num_truthy P f then f else num_of_nat P 0)
                   (case lim of None \<Rightarrow> num_of_nat P 20
                    | Some l \<Rightarrow> if num_truthy P l then l else num_of_nat P 20)))
            else None) \<and>
         (\<exists>response.
            run_io net (request P c (listObjects_endpoint P cn lim off incl tenant) no_init)
              = Inr response \<and>
            get_prop response ''objects'' = Some (Some (JArr (items p))) \<and>
            total p = get_prop_opt response ''totalResults'') \<and>
         (integers_exact P B \<and>
          lim = map_option (num_of_nat P) lq \<and> off = map_option (num_of_nat P) oq \<and>
          length (items p) \<le> B \<and>
          (case oq of None \<Rightarrow> 0 | Some w \<Rightarrow> w) + (case lq of None \<Rightarrow> 20 | Some v \<Rightarrow> if v = 0 then 20 else v) \<le> B
          \<longrightarrow>
            hasMore p = (length (items p) = (case lq of None \<Rightarrow> 20 | Some v \<Rightarrow> if v = 0 then 20 else v)) \<and>
            nextCursor p =
              (if hasMore p then Some (show_nat ((case oq of None \<Rightarrow> 0 | Some w \<Rightarrow> w) + (case lq of None \<Rightarrow> 20 | Some v \<Rightarrow> if v = 0 then 20 else v))) else None))"
proof -
  from listObjects_Inr [OF assms] obtain objs tot where
    p: "p = createPaginatedResponse objs
           \<lparr>opt_total = tot,
            opt_hasMore = Some (num_eq P (num_of_nat P (length objs))
                                  (num_or P lim (num_of_nat P 20))),
            opt_nextCursor =
              (if num_eq P (num_of_nat P (length objs)) (num_or P lim (num_of_nat P 20))
               then Some (num_str P (num_add P (num_or P off (num_of_nat P 0))
                                       (num_or P lim (num_of_nat P 20))))
               else None)\<rparr>"
    by blast
  have more: "hasMore p =
      num_eq P (num_of_nat P (length (items p))) (num_or P lim (num_of_nat P 20))"
    by (simp add: p createPaginatedResponse_def)
  have cursor: "nextCursor p =
      (if hasMore p
       then Some (num_str P (num_add P (num_or P off (num_of_nat P 0))
                               (num_or P lim (num_of_nat P 20))))
       else None)"
    by (simp add: p createPaginatedResponse_def)
  have exact: "hasMore p = (length (items p) = (case lq of None \<Rightarrow> 20 | Some v \<Rightarrow> if v = 0 then 20 else v)) \<and>
            nextCursor p =
              (if hasMore p then Some (show_nat ((case oq of None \<Rightarrow> 0 | Some w \<Rightarrow> w) + (case lq of None \<Rightarrow> 20 | Some v \<Rightarrow> if v = 0 then 20 else v))) else None)"
    if ex: "integers_exact P B"
      and lim: "lim = map_option (num_of_nat P) lq"
      and off: "off = map_option (num_of_nat P) oq"
      and len: "length (items p) \<le> B"
      and sum: "(case oq of None \<Rightarrow> 0 | Some w \<Rightarrow> w) + (case lq of None \<Rightarrow> 20 | Some v \<Rightarrow> if v = 0 then 20 else v) \<le> B"
  proof -
    define Lim where "Lim = (case lq of None \<Rightarrow> 20 | Some v \<Rightarrow> if v = 0 then 20 else v)"
    define Ofs where "Ofs = (case oq of None \<Rightarrow> 0 | Some w \<Rightarrow> w)"
    from sum have LB: "Lim \<le> B" and OB: "Ofs \<le> B" and OL: "Ofs + Lim \<le> B"
      by (simp_all add: Lim_def Ofs_def)
    have fact: "num_eq P (num_of_nat P a) (num_of_nat P b) = (a = b) \<and>
        num_truthy P (num_of_nat P a) = (a \<noteq> 0) \<and>
        num_str P (num_of_nat P a) = show_nat a \<and>
        (a + b \<le> B \<longrightarrow> num_add P (num_of_nat P a) (num_of_nat P b) = num_of_nat P (a + b))"
      if "a \<le> B" "b \<le> B" for a b
      using ex that by (simp add: integers_exact_def)
    have eff_l: "num_or P lim (num_of_nat P 20) = num_of_nat P Lim"
    proof (cases lq)
      case None
      then show ?thesis by (simp add: lim num_or_def Lim_def)
    next
      case (Some v)
      have "v \<le> B"
        using LB Some by (cases "v = 0") (simp_all add: Lim_def)
      from fact [OF this this] show ?thesis
        by (simp add: lim Some num_or_def Lim_def)
    qed
    have eff_o: "num_or P off (num_of_nat P 0) = num_of_nat P Ofs"
    proof (cases oq)
      case None
      then show ?thesis by (simp add: off num_or_def Ofs_def)
    next
      case (Some w)
      have "w \<le> B"
        using OB Some by (simp add: Ofs_def)
      from fact [OF this this] show ?thesis
        by (cases "w = 0") (simp_all add: off Some num_or_def Ofs_def)
    qed
    have a: "hasMore p = (length (items p) = Lim)"
      using fact [OF len LB] by (simp add: more eff_l)
    have "num_str P (num_add P (num_of_nat P Ofs) (num_of_nat P Lim)) = show_nat (Ofs + Lim)"
      using fact [OF OB LB] fact [OF OL OL] OL by simp
    then have b: "nextCursor p = (if hasMore p then Some (show_nat (Ofs + Lim)) else None)"
      by (simp add: cursor eff_l eff_o)
    from a b show ?thesis
      by (simp add: Lim_def Ofs_def)
  qed
  have more': "hasMore p =
           num_eq P (num_of_nat P (length (items p)))
             (case lim of None \<Rightarrow> num_of_nat P 20
              | Some l \<Rightarrow> if num_truthy P l then l else num_of_nat P 20)"
    using more by (simp add: num_or_def)
  have cursor': "nextCursor p =
           (if hasMore p
            then Some (num_str P (num_add P
                   (case off of None \<Rightarrow> num_of_nat P 0
                    | Some f \<Rightarrow> if num_truthy P f then f else num_of_nat P 0)
                   (case lim of None \<Rightarrow> num_of_nat P 20
                    | Some l \<Rightarrow> if num_truthy P l then l else num_of_nat P 20)))
            else None)"
    using cursor by (simp add: num_or_def)
  have exact': "integers_exact P B \<and>
          lim = map_option (num_of_nat P) lq \<and> off = map_option (num_of_nat P) oq \<and>
          length (items p) \<le> B \<and>
          (case oq of None \<Rightarrow> 0 | Some w \<Rightarrow> w) + (case lq of None \<Rightarrow> 20 | Some v \<Rightarrow> if v = 0 then 20 else v) \<le> B
          \<longrightarrow>
            hasMore p = (length (items p) = (case lq of None \<Rightarrow> 20 | Some v \<Rightarrow> if v = 0 then 20 else v)) \<and>
            nextCursor p =
              (if hasMore p then Some (show_nat ((case oq of None \<Rightarrow> 0 | Some w \<Rightarrow> w) + (case lq of None \<Rightarrow> 20 | Some v \<Rightarrow> if v = 0 then 20 else v))) else None)"
    using exact by blast
  show ?thesis
    by (intro conjI more' cursor' listObjects_source [OF assms] exact')
qed

text \<open>
  C8, witness: limit 1 and one object returned, with a reported total of 7:
  \<^verbatim>\<open>hasMore\<close> is true and the cursor is \<^verbatim>\<open>"1"\<close>.
\<close>

theorem C8_list_objects_has_more_witness:
  "run_io (replies 200 ''{...}'')
     (listObjects (int_platform one_object_parse) local_client ''Article'' (Some 1) None None None)
   = Inr one_page \<and>
   integers_exact (int_platform one_object_parse) (2 ^ 53) \<and>
   hasMore one_page = (length (items one_page) = 1) \<and>
   nextCursor one_page = Some ''1'' \<and>
   total one_page = Some (JNum 7)"
proof -
  have run: "run_io (replies 200 ''{...}'')
     (listObjects (int_platform one_object_parse) local_client ''Article'' (Some 1) None None None)
   = Inr one_page"
    using one_object_page by (simp add: one_page_def)
  have ex: "integers_exact (int_platform one_object_parse) (2 ^ 53)"
    by (rule int_platform_exact)
  have enc: "Some (1::int) = map_option (num_of_nat (int_platform one_object_parse)) (Some 1)"
    by (simp add: int_platform_def)
  note listing = C8_list_objects_has_more [OF run, where B = "2 ^ 53" and lq = "Some 1"
                 and oq = None]
  from listing [THEN conjunct2, THEN conjunct2, THEN conjunct2] ex enc
  have "hasMore one_page = (length (items one_page) = 1) \<and>
        nextCursor one_page = (if hasMore one_page then Some (show_nat 1) else None)"
    by (simp add: one_page_def)
  with run ex show ?thesis
    by (simp add: one_page_def show_nat.simps)
qed

text \<open>
  C8, counterexample to the claim as stated: the caller's limit is 0 and the
  service returns no object. The number of items equals the caller's limit, yet
  \<^verbatim>\<open>hasMore\<close> is false, because the limit compared with is 20.
\<close>

theorem C8_list_objects_has_more_counterexample:
  "run_io (replies 200 ''{...}'')
     (listObjects (int_platform no_objects_parse) local_client ''Article'' (Some 0) None None None)
   = Inr \<lparr>items = [], count = 0, total = None, hasMore = False, nextCursor = None\<rparr> \<and>
   \<not> (hasMore \<lparr>items = ([] :: int json list), count = 0, total = (None :: int json option),
               hasMore = False, nextCursor = None\<rparr>
        = (int (length (items \<lparr>items = ([] :: int json list), count = 0,
               total = (None :: int json option), hasMore = False, nextCursor = None\<rparr>))
           = (case Some 0 of None \<Rightarrow> 20 | Some l \<Rightarrow> l)))"
  using empty_page_limit_0 by simp

subsection \<open>Pagination arithmetic\<close>


text \<open>
  C9. The worked examples of the pagination arithmetic:
  \<^verbatim>\<open>hasMoreItems(10, 10, 25)\<close> is true, \<^verbatim>\<open>hasMoreItems(20, 10, 25)\<close> is false,
  \<^verbatim>\<open>getNextOffset(0, 20, 45)\<close> is 20 and \<^verbatim>\<open>getNextOffset(40, 20, 45)\<close> is undefined.
\<close>

theorem C9_pagination_examples:
  "hasMoreItems (10::int) 10 25 = True \<and>
   hasMoreItems (20::int) 10 25 = False \<and>
   getNextOffset (0::int) 20 45 = Some 20 \<and>
   getNextOffset (40::int) 20 45 = None"
  by (simp add: hasMoreItems_def getNextOffset_def)

text \<open>
  C10. For every offset, limit and total, \<^verbatim>\<open>getNextOffset\<close> returns a defined value
  exactly when \<^verbatim>\<open>hasMoreItems\<close> is true, and the defined value is offset + limit.
  The statement holds for every number type, whatever its addition and comparison do.
\<close>

theorem C10_next_offset_iff_has_more:
  "(getNextOffset offset limit tot \<noteq> None) = hasMoreItems offset limit tot \<and>
   (getNextOffset offset limit tot = None \<or>
    getNextOffset offset limit tot = Some (offset + limit))"
  by (simp add: hasMoreItems_def getNextOffset_def Let_def)

end
